theory Spec2Isabelle
  imports Complex_Main "HOL-Library.Word"
begin

section \<open>Values shared by all components\<close>

text \<open>
  JavaScript numbers are modelled as follows. Byte counts, indices and frame counters are
  integers (\<open>nat\<close> or \<open>int\<close>); where the source can produce \<open>NaN\<close> for such a variable it
  is an \<open>option\<close> whose \<open>None\<close> is \<open>NaN\<close>. Durations, times, frame rates and progress
  values are \<open>real\<close>; a division whose divisor may be zero is written out, because
  JavaScript yields \<open>NaN\<close> or an infinity there and HOL yields \<open>0\<close>. Where a
  comparison decides on the rounded result of binary64 arithmetic (the time window of a
  layer), the arithmetic is a parameter of the model.
  A Node \<open>Buffer\<close> / \<open>Uint8Array\<close> is a list of bytes.
\<close>

type_synonym byte = "8 word"
type_synonym buffer = "byte list"

datatype error =
    RangeError          \<comment> \<open>\<open>TypedArray.prototype.set\<close> out of bounds, or image data refused by the canvas\<close>
  | TypeError           \<comment> \<open>property read on \<open>undefined\<close>, or an invalid chunk given to a stream\<close>
  | AssertionError string  \<comment> \<open>a failed \<open>assert(cond, message)\<close>\<close>
  | Error string        \<comment> \<open>\<open>throw new Error(message)\<close>\<close>

section \<open>rawVideoToFrames: the chunk reassembler\<close>

text \<open>
  The closure variables of \<open>rawVideoToFrames\<close>: the accumulation \<open>buffer\<close>, the cursor
  \<open>bytesRead\<close>, and (as the trace of \<open>this.push\<close>) the frames emitted so far, oldest first.
\<close>

record rawVideoState =
  buffer :: buffer
  bytesRead :: "nat option"
  pushed :: "buffer list"

definition new_Uint8Array :: "nat \<Rightarrow> buffer" where
  "new_Uint8Array n = replicate n 0"

text \<open>\<open>chunk.slice(startAt, endAt)\<close> for \<open>0 \<le> startAt \<le> endAt\<close>.\<close>

definition slice :: "buffer \<Rightarrow> nat \<Rightarrow> nat \<Rightarrow> buffer" where
  "slice chunk startAt endAt = take (endAt - startAt) (drop startAt chunk)"

text \<open>\<open>target.set(src, offset)\<close> for \<open>offset + src.length \<le> target.length\<close>.\<close>

definition buffer_set :: "buffer \<Rightarrow> buffer \<Rightarrow> nat \<Rightarrow> buffer" where
  "buffer_set target src offset =
     take offset target @ src @ drop (offset + length src) target"

text \<open>The remainder operator \<open>%\<close> on non-negative integers: \<open>x % 0\<close> is \<open>NaN\<close>.\<close>

definition js_mod :: "nat \<Rightarrow> nat \<Rightarrow> nat option" where
  "js_mod a b = (if b = 0 then None else Some (a mod b))"

text \<open>
  The \<open>while (startAt < chunk.length)\<close> loop of \<open>transform\<close>.

  \<^item> \<open>startAt = None\<close> is \<open>NaN\<close>: the comparison \<open>NaN < chunk.length\<close> is false.
  \<^item> \<open>bytesRead = None\<close> is \<open>NaN\<close>: then \<open>endAt\<close> and \<open>bytesToRead\<close> are \<open>NaN\<close>,
    \<open>chunk.slice(startAt, NaN)\<close> is empty, \<open>buffer.set\<close> of an empty array at offset
    \<open>NaN\<close> (read as 0) changes nothing, \<open>bytesRead\<close> stays \<open>NaN\<close>, nothing is pushed and
    \<open>startAt\<close> becomes \<open>NaN\<close>.
  \<^item> \<open>bytesRead > frameByteSize\<close>: \<open>buffer.set(\<dots>, bytesRead)\<close> throws a \<open>RangeError\<close>, its
    offset being beyond the target. Otherwise \<open>bytesRead \<le> frameByteSize\<close>, so
    \<open>startAt \<le> endAt\<close>, the subtractions below are exact and the copy fits.
\<close>

function transform_loop ::
  "nat \<Rightarrow> buffer \<Rightarrow> nat option \<Rightarrow> rawVideoState \<Rightarrow> error + rawVideoState" where
  "transform_loop frameByteSize chunk startAt st =
     (case startAt of
        None \<Rightarrow> Inr st
      | Some s \<Rightarrow>
          if \<not> s < length chunk then Inr st
          else (case bytesRead st of
                  None \<Rightarrow> transform_loop frameByteSize chunk None st
                | Some r \<Rightarrow>
                    if frameByteSize < r then Inl RangeError
                    else
                      let endAt = min (s + frameByteSize - r) (length chunk);
                          bytesToRead = endAt - s;
                          buffer' = buffer_set (buffer st) (slice chunk s endAt) r;
                          bytesRead' = js_mod (r + bytesToRead) frameByteSize
                      in if bytesRead' = Some 0
                         then transform_loop frameByteSize chunk (Some endAt)
                                \<lparr>buffer = new_Uint8Array frameByteSize,
                                 bytesRead = bytesRead',
                                 pushed = pushed st @ [buffer']\<rparr>
                         else transform_loop frameByteSize chunk (Some endAt)
                                \<lparr>buffer = buffer',
                                 bytesRead = bytesRead',
                                 pushed = pushed st\<rparr>))"
  by pat_completeness auto
termination
proof (relation "measure (\<lambda>(frameByteSize, chunk, startAt, st).
          case startAt of
            None \<Rightarrow> 0
          | Some s \<Rightarrow> 1 + 2 * (length chunk - s)
                       + (if bytesRead st = Some frameByteSize then 1 else 0))",
       goal_cases)
  case 1
  show ?case by simp
next
  case (2 frameByteSize chunk startAt st s)
  then show ?case by simp
next
  case (3 frameByteSize chunk startAt st s r endAt bytesToRead buffer' bytesRead')
  have sl: "s < length chunk" and rl: "r \<le> frameByteSize" using 3 by simp_all
  have pos: "frameByteSize \<noteq> 0"
    using \<open>bytesRead' = Some 0\<close> \<open>bytesRead' = js_mod (r + bytesToRead) frameByteSize\<close>
    by (auto simp: js_mod_def split: if_splits)
  have e: "endAt = min (s + frameByteSize - r) (length chunk)" by fact
  show ?case
  proof (cases "r = frameByteSize")
    case True
    then have "endAt = s" using sl unfolding e by simp
    then show ?thesis
      using True pos \<open>startAt = Some s\<close> \<open>bytesRead st = Some r\<close> \<open>bytesRead' = Some 0\<close>
      by simp
  next
    case False
    then have "s < endAt" and "endAt \<le> length chunk"
      using sl rl unfolding e by simp_all
    then have "2 * (length chunk - endAt) + 1 < 2 * (length chunk - s)"
      by linarith
    then show ?thesis
      using pos \<open>startAt = Some s\<close> \<open>bytesRead st = Some r\<close> \<open>bytesRead' = Some 0\<close>
      by simp
  qed
next
  case (4 frameByteSize chunk startAt st s r endAt bytesToRead buffer' bytesRead')
  have sl: "s < length chunk" and rl: "r \<le> frameByteSize" using 4 by simp_all
  have e: "endAt = min (s + frameByteSize - r) (length chunk)" by fact
  have b: "bytesRead' = js_mod (r + (endAt - s)) frameByteSize"
    using 4 by simp
  show ?case
  proof (cases "r = frameByteSize")
    case True
    then have "endAt = s" using sl unfolding e by simp
    then have "bytesRead' = None"
      using b True \<open>bytesRead' \<noteq> Some 0\<close> by (simp add: js_mod_def split: if_splits)
    then show ?thesis
      using True \<open>endAt = s\<close> \<open>startAt = Some s\<close> \<open>bytesRead st = Some r\<close> by simp
  next
    case False
    then have "s < endAt" and "endAt \<le> length chunk"
      using sl rl unfolding e by simp_all
    then have "2 * (length chunk - endAt) + 1 < 2 * (length chunk - s)"
      by linarith
    then show ?thesis
      using \<open>startAt = Some s\<close> \<open>bytesRead st = Some r\<close> by simp
  qed
qed

declare transform_loop.simps [simp del]

text \<open>\<open>transform(chunk, _, callback)\<close>: \<open>startAt\<close> starts at 0.\<close>

definition transform :: "nat \<Rightarrow> rawVideoState \<Rightarrow> buffer \<Rightarrow> error + rawVideoState" where
  "transform frameByteSize st chunk = transform_loop frameByteSize chunk (Some 0) st"

text \<open>
  The stream calls \<open>transform\<close> once per incoming chunk, in order; an exception ends the
  stream. There is no \<open>flush\<close>, so nothing happens at end of input.
\<close>

fun transform_all :: "nat \<Rightarrow> rawVideoState \<Rightarrow> buffer list \<Rightarrow> error + rawVideoState" where
  "transform_all frameByteSize st [] = Inr st"
| "transform_all frameByteSize st (chunk # chunks) =
     (case transform frameByteSize st chunk of
        Inl e \<Rightarrow> Inl e
      | Inr st' \<Rightarrow> transform_all frameByteSize st' chunks)"

text \<open>
  \<open>rawVideoToFrames({width, height, channels})\<close> applied to a whole input: the frames read
  from the object side of the stream.
\<close>

definition rawVideoToFrames ::
  "nat \<Rightarrow> nat \<Rightarrow> nat \<Rightarrow> buffer list \<Rightarrow> error + buffer list" where
  "rawVideoToFrames width height channels chunks =
     (let frameByteSize = width * height * channels
      in case transform_all frameByteSize
                \<lparr>buffer = new_Uint8Array frameByteSize, bytesRead = Some 0, pushed = []\<rparr>
                chunks of
           Inl e \<Rightarrow> Inl e
         | Inr st \<Rightarrow> Inr (pushed st))"

text \<open>
  The reference the reassembler is compared with: a byte sequence cut into consecutive
  blocks of \<open>n\<close> bytes, an incomplete last block left out.
\<close>

function whole_frames :: "nat \<Rightarrow> buffer \<Rightarrow> buffer list" where
  "whole_frames n bs =
     (if n = 0 \<or> length bs < n then [] else take n bs # whole_frames n (drop n bs))"
  by pat_completeness auto
termination
proof (relation "measure (\<lambda>(n, bs). length bs)", goal_cases)
  case 1
  show ?case by simp
next
  case (2 n bs)
  then show ?case by simp arith
qed

declare whole_frames.simps [simp del]

text \<open>The bytes of an incomplete last block: what stays in the accumulation buffer.\<close>

definition pending :: "nat \<Rightarrow> buffer \<Rightarrow> buffer" where
  "pending n bs = drop (length bs div n * n) bs"

section \<open>FrameSource: the time window of a layer\<close>

text \<open>
  A layer as \<open>parseConfig\<close> hands it to the frame sources; of its parameters only the
  type tag and the time window are kept. \<open>start\<close> is \<open>None\<close> when the property is
  \<open>undefined\<close> or \<open>null\<close>.
\<close>

record layer =
  layerType :: string
  start :: "real option"
  layerDuration :: real

text \<open>
  The fabric \<open>StaticCanvas\<close>: its size and the objects added to it, oldest first. An object
  is either something a layer producer drew (\<open>'o\<close>) or an image made from an rgba buffer.
\<close>

datatype 'o drawable = Drawn 'o | FabricImage buffer

record 'o canvas =
  canvasWidth :: nat
  canvasHeight :: nat
  objects :: "'o drawable list"

text \<open>
  A layer producer (the \<open>implementation\<close> of a \<open>FrameSource\<close>; \<open>fs_layer\<close> is its
  \<open>layer\<close> getter) with internal state \<open>'p\<close>:
  \<open>readNextFrame(progress, canvas, offsetTime)\<close> may throw (\<open>Inl\<close>); otherwise it yields
  the value it returns (\<open>None\<close> for \<open>undefined\<close> or any other falsy value, \<open>Some\<close> for
  an rgba buffer), the canvas as it left it, and its new state.
\<close>

type_synonym ('p, 'o) implementation =
  "'p \<Rightarrow> real \<Rightarrow> 'o canvas \<Rightarrow> real \<Rightarrow> error + (buffer option \<times> 'o canvas \<times> 'p)"

record 'p frameSource =
  fs_layer :: layer
  fs_implementation :: 'p

text \<open>
  The two operations of binary64 arithmetic that \<open>FrameSource.readNextFrame\<close> uses, on
  finite numbers: the rounded difference and the rounded quotient as JavaScript computes
  them, \<open>None\<close> when the result is \<open>NaN\<close> or an infinity. They are parameters, so that
  what is proved of the frame source holds whatever the rounding does. A negative zero
  is not told from 0 (\<open>-0 >= 0\<close> holds in JavaScript as well).
\<close>

record arithmetic =
  js_minus :: "real \<Rightarrow> real \<Rightarrow> real option"
  js_divide :: "real \<Rightarrow> real \<Rightarrow> real option"

text \<open>
  Arithmetic without rounding: what binary64 arithmetic gives when the operands and the
  result are numbers it represents, such as the small integers and their halves.
\<close>

definition exactArithmetic :: arithmetic where
  "exactArithmetic =
     \<lparr>js_minus = (\<lambda>a b. Some (a - b)),
      js_divide = (\<lambda>a b. if b = 0 then None else Some (a / b))\<rparr>"

text \<open>
  \<open>offsetTime = time - (start ?? 0)\<close> and \<open>offsetProgress = offsetTime / layerDuration\<close>
  as the code computes them for a finite \<open>time\<close>; \<open>None\<close> is \<open>NaN\<close> or an infinity.
  A quotient by 0 is \<open>NaN\<close> or an infinity, and so is a quotient of either.
\<close>

definition offsetTime :: "arithmetic \<Rightarrow> layer \<Rightarrow> real \<Rightarrow> real option" where
  "offsetTime ar l time = js_minus ar time (case start l of Some s \<Rightarrow> s | None \<Rightarrow> 0)"

definition offsetProgress :: "arithmetic \<Rightarrow> layer \<Rightarrow> real \<Rightarrow> real option" where
  "offsetProgress ar l time =
     (case offsetTime ar l time of
        None \<Rightarrow> None
      | Some t \<Rightarrow> if layerDuration l = 0 then None else js_divide ar t (layerDuration l))"

text \<open>
  \<open>shouldDrawLayer = offsetProgress >= 0 && offsetProgress <= 1\<close>: both comparisons are
  false for \<open>NaN\<close>, and one of them is false for an infinity.
\<close>

definition shouldDrawLayer :: "arithmetic \<Rightarrow> layer \<Rightarrow> real \<Rightarrow> bool" where
  "shouldDrawLayer ar l time \<longleftrightarrow>
     (case offsetProgress ar l time of
        None \<Rightarrow> False
      | Some progress \<Rightarrow> progress \<ge> 0 \<and> progress \<le> 1)"

text \<open>
  \<open>FrameSource.readNextFrame(time, canvas)\<close>. The time is \<open>None\<close> when the caller passes
  \<open>undefined\<close>, \<open>NaN\<close> or an infinity: then \<open>offsetProgress\<close> is \<open>NaN\<close> or infinite and
  the layer is not drawn. The early \<open>return\<close> yields \<open>undefined\<close> and touches
  neither the canvas nor the producer. When the layer is drawn both \<open>offsetProgress\<close> and
  \<open>offsetTime\<close> are finite numbers.
\<close>

definition FrameSource_readNextFrame ::
  "arithmetic \<Rightarrow> ('p, 'o) implementation \<Rightarrow> 'p frameSource \<Rightarrow> real option \<Rightarrow> 'o canvas
     \<Rightarrow> error + (buffer option \<times> 'o canvas \<times> 'p frameSource)" where
  "FrameSource_readNextFrame ar impl fs time canvas =
     (case time of
        None \<Rightarrow> Inr (None, canvas, fs)
      | Some t \<Rightarrow>
          if \<not> shouldDrawLayer ar (fs_layer fs) t then Inr (None, canvas, fs)
          else (case (offsetProgress ar (fs_layer fs) t, offsetTime ar (fs_layer fs) t) of
                  (Some progress, Some ot) \<Rightarrow>
                    (case impl (fs_implementation fs) progress canvas ot of
                       Inl e \<Rightarrow> Inl e
                     | Inr (rgba, canvas', p') \<Rightarrow>
                         Inr (rgba, canvas', fs\<lparr>fs_implementation := p'\<rparr>))
                | _ \<Rightarrow> Inr (None, canvas, fs)))"

text \<open>
  A producer that draws nothing, returns nothing and records the progress value of each
  invocation, used to observe whether and with what the wrapper calls the producer.
\<close>

definition recordingProducer :: "(real list, 'o) implementation" where
  "recordingProducer seen progress canvas t = Inr (None, canvas, seen @ [progress])"

section \<open>Transition\<close>

text \<open>The easing functions. \<open>2 ** y\<close> is \<open>2 powr y\<close>.\<close>

definition easeOutExpo :: "real \<Rightarrow> real" where
  "easeOutExpo x = (if x = 1 then 1 else 1 - 2 powr (- 10 * x))"

definition easeInOutCubic :: "real \<Rightarrow> real" where
  "easeInOutCubic x = (if x < 0.5 then 4 * x * x * x else 1 - (- 2 * x + 2) ^ 3 / 2)"

definition linear_easing :: "real \<Rightarrow> real" where
  "linear_easing x = x"

definition easings :: "string \<Rightarrow> (real \<Rightarrow> real) option" where
  "easings key =
     (if key = ''easeInOutCubic'' then Some easeInOutCubic
      else if key = ''easeOutExpo'' then Some easeOutExpo
      else if key = ''linear'' then Some linear_easing
      else None)"

text \<open>
  The parameters handed to the shader are only carried along: a list of named uniform
  values.
\<close>

type_synonym params = "(string \<times> real list) list"

text \<open>The transition object of a clip as configured; a missing property is \<open>None\<close>.\<close>

record transitionOptions =
  opt_duration :: "real option"
  opt_name :: "string option"
  opt_easing :: "string option"
  opt_params :: "params option"

text \<open>
  \<open>TransitionAliases[name]\<close>: the properties \<open>Object.assign\<close> copies onto the options.
\<close>

definition TransitionAliases :: "string \<Rightarrow> (string \<times> string \<times> params) option" where
  "TransitionAliases key =
     (if key = ''directional-left''
        then Some (''directional'', ''easeOutExpo'', [(''direction'', [1, 0])])
      else if key = ''directional-right''
        then Some (''directional'', ''easeOutExpo'', [(''direction'', [- 1, 0])])
      else if key = ''directional-down''
        then Some (''directional'', ''easeOutExpo'', [(''direction'', [0, 1])])
      else if key = ''directional-up''
        then Some (''directional'', ''easeOutExpo'', [(''direction'', [0, - 1])])
      else None)"

text \<open>
  The fields of a \<open>Transition\<close>. \<open>source\<close> is the entry of the \<open>gl-transitions\<close> table
  found for the name, represented by the entry's own name.
\<close>

record transition =
  name :: "string option"
  duration :: real
  params :: "params option"
  easingFunction :: "real \<Rightarrow> real"
  source :: "string option"

text \<open>\<open>String.prototype.toLowerCase\<close> on ASCII letters.\<close>

definition toLowerCase :: "string \<Rightarrow> string" where
  "toLowerCase str =
     map (\<lambda>c. if 65 \<le> (of_char c :: nat) \<and> (of_char c :: nat) \<le> 90
                then char_of (of_char c + (32 :: nat)) else c) str"

text \<open>A string is truthy when it is present and not empty.\<close>

definition truthy_string :: "string option \<Rightarrow> bool" where
  "truthy_string v \<longleftrightarrow> (case v of None \<Rightarrow> False | Some x \<Rightarrow> x \<noteq> [])"

text \<open>
  \<open>new Transition(options, isLastClip)\<close>. The table of the \<open>gl-transitions\<close> package is
  the parameter \<open>glTransitions\<close> (the names of its entries, in order) and the value that
  \<open>getRandomTransition()\<close> would return is the parameter \<open>randomTransition\<close>.
\<close>

definition defaultedOptions :: "transitionOptions option \<Rightarrow> bool \<Rightarrow> transitionOptions" where
  \<comment> \<open>\<open>if (!options || isLastClip) options = { duration: 0 }\<close>\<close>
  "defaultedOptions opts isLastClip =
     (case opts of
        None \<Rightarrow> \<lparr>opt_duration = Some 0, opt_name = None, opt_easing = None, opt_params = None\<rparr>
      | Some given \<Rightarrow>
          if isLastClip
          then \<lparr>opt_duration = Some 0, opt_name = None, opt_easing = None, opt_params = None\<rparr>
          else given)"

definition withRandomName :: "string \<Rightarrow> transitionOptions \<Rightarrow> transitionOptions" where
  \<comment> \<open>\<open>if (options.name === "random") options.name = getRandomTransition()\<close>\<close>
  "withRandomName randomTransition opts =
     (if opt_name opts = Some ''random'' then opts\<lparr>opt_name := Some randomTransition\<rparr>
      else opts)"

definition withAlias :: "transitionOptions \<Rightarrow> transitionOptions" where
  \<comment> \<open>\<open>if (aliasedTransition) Object.assign(options, aliasedTransition)\<close>\<close>
  "withAlias opts =
     (case opt_name opts of
        None \<Rightarrow> opts
      | Some n \<Rightarrow>
          (case TransitionAliases n of
             None \<Rightarrow> opts
           | Some (aliasName, aliasEasing, aliasParams) \<Rightarrow>
               opts\<lparr>opt_name := Some aliasName, opt_easing := Some aliasEasing,
                    opt_params := Some aliasParams\<rparr>))"

definition Transition_new ::
  "string list \<Rightarrow> string \<Rightarrow> transitionOptions option \<Rightarrow> bool \<Rightarrow> error + transition" where
  "Transition_new glTransitions randomTransition opts isLastClip =
     (let options1 = defaultedOptions opts isLastClip
      in if \<not> (opt_duration options1 = Some 0 \<or> truthy_string (opt_name options1))
         then Inl (AssertionError ''Please specify transition name or set duration to 0'')
         else
           let options3 = withAlias (withRandomName randomTransition options1);
               this = \<lparr>name = opt_name options3,
                       duration = (case opt_duration options3 of Some d \<Rightarrow> d | None \<Rightarrow> 0),
                       params = opt_params options3,
                       easingFunction =
                         (case opt_easing options3 of
                            None \<Rightarrow> linear_easing
                          | Some e \<Rightarrow>
                              (case easings e of Some f \<Rightarrow> f | None \<Rightarrow> linear_easing)),
                       source = None\<rparr>
           in case opt_name options3 of
                None \<Rightarrow> Inr this
              | Some this_name \<Rightarrow>
                  if this_name \<noteq> [] \<and> this_name \<noteq> ''dummy''
                  then (case find (\<lambda>n. toLowerCase n = toLowerCase this_name) glTransitions of
                          None \<Rightarrow> Inl (AssertionError ''Transition not found'')
                        | Some src \<Rightarrow> Inr (this\<lparr>source := Some src\<rparr>))
                  else Inr this)"

text \<open>
  The function returned by \<open>Transition.create\<close>. Without a \<open>source\<close> it selects one of
  its two arguments; \<open>fromFrame\<close> is \<open>None\<close> when the caller passes \<open>undefined\<close>. With a
  \<open>source\<close> the frame is drawn by the \<open>gl-transition\<close> package, the parameter \<open>glDraw\<close>,
  which needs both frames and may throw.
\<close>

type_synonym glDraw = "string \<Rightarrow> params option \<Rightarrow> real \<Rightarrow> buffer \<Rightarrow> buffer \<Rightarrow> error + buffer"

definition runTransitionOnFrame ::
  "glDraw \<Rightarrow> transition \<Rightarrow> buffer option \<Rightarrow> buffer \<Rightarrow> real \<Rightarrow> error + buffer option" where
  "runTransitionOnFrame glDraw this fromFrame toFrame progress =
     (case source this of
        None \<Rightarrow> Inr (if easingFunction this progress > 0.5 then Some toFrame else fromFrame)
      | Some src \<Rightarrow>
          (case fromFrame of
             None \<Rightarrow> Inl TypeError
           | Some fromBuf \<Rightarrow>
               (case glDraw src (params this) (easingFunction this progress) fromBuf toFrame of
                  Inl e \<Rightarrow> Inl e
                | Inr outArray \<Rightarrow> Inr (Some outArray))))"

text \<open>
  \<open>Transition.create({width, height, channels})\<close>: \<open>gl\<close> tells whether \<open>GL(width, height)\<close>
  returned a context.
\<close>

definition Transition_create ::
  "bool \<Rightarrow> glDraw \<Rightarrow> transition
     \<Rightarrow> error + (buffer option \<Rightarrow> buffer \<Rightarrow> real \<Rightarrow> error + buffer option)" where
  "Transition_create gl glDraw this =
     (if \<not> gl
      then Inl (Error ''gl returned null, this probably means that some dependencies are not installed. See README.'')
      else Inr (runTransitionOnFrame glDraw this))"

section \<open>createFrameSource: the renderer of one clip\<close>

text \<open>A clip as \<open>parseConfig\<close> returns it.\<close>

record clip =
  transition :: transition
  clip_duration :: real
  layers :: "layer list"

definition createFabricCanvas :: "nat \<Rightarrow> nat \<Rightarrow> 'o canvas" where
  "createFabricCanvas width height =
     \<lparr>canvasWidth = width, canvasHeight = height, objects = []\<rparr>"

definition canvas_add :: "'o canvas \<Rightarrow> 'o drawable \<Rightarrow> 'o canvas" where
  "canvas_add canvas obj = canvas\<lparr>objects := objects canvas @ [obj]\<rparr>"

text \<open>
  \<open>renderFabricCanvas\<close>: \<open>renderAll\<close>, then \<open>getImageData(0, 0, width, height)\<close> copied into
  a \<open>Buffer\<close>. The image data of a \<open>width \<times> height\<close> canvas has \<open>width * height * 4\<close>
  bytes; what the bytes are is decided by the rendering library, the parameter
  \<open>raster\<close>, which gives the byte at each index for the objects on the canvas.
\<close>

type_synonym 'o raster = "'o drawable list \<Rightarrow> nat \<Rightarrow> nat \<Rightarrow> nat \<Rightarrow> byte"

definition renderFabricCanvas :: "'o raster \<Rightarrow> 'o canvas \<Rightarrow> buffer" where
  "renderFabricCanvas raster canvas =
     map (raster (objects canvas) (canvasWidth canvas) (canvasHeight canvas))
         [0 ..< canvasWidth canvas * canvasHeight canvas * 4]"

text \<open>
  \<open>rgbaToFabricImage\<close>: \<open>new ImageData(data, width, height)\<close> and \<open>putImageData\<close>
  belong to the canvas library. Whether they accept a buffer for a canvas size, or throw,
  is the parameter \<open>accepts\<close>; an accepted buffer becomes an image.
\<close>

type_synonym imageCheck = "nat \<Rightarrow> nat \<Rightarrow> buffer \<Rightarrow> bool"

definition rgbaToFabricImage :: "imageCheck \<Rightarrow> nat \<Rightarrow> nat \<Rightarrow> buffer \<Rightarrow> error + 'o drawable" where
  "rgbaToFabricImage accepts width height rgba =
     (if accepts width height rgba then Inr (FabricImage rgba) else Inl RangeError)"

text \<open>
  The test of the standard \<open>ImageData\<close> constructor: positive sizes and
  \<open>4 * width * height\<close> bytes. A library that checks less accepts such a buffer too.
\<close>

definition strictImageData :: imageCheck where
  "strictImageData width height rgba \<longleftrightarrow>
     width \<noteq> 0 \<and> height \<noteq> 0 \<and> length rgba = 4 * width * height"

text \<open>
  \<open>createFrameSource\<close>: one \<open>FrameSource\<close> per non-audio layer, set up one after the other.
  \<open>setup\<close> stands for \<open>createLayerSource\<close>, which fails for an unknown layer type or when
  the producer's own set-up fails.
\<close>

fun setupLayers :: "(layer \<Rightarrow> error + 'p) \<Rightarrow> layer list \<Rightarrow> error + 'p frameSource list" where
  "setupLayers setup [] = Inr []"
| "setupLayers setup (l # ls) =
     (case setup l of
        Inl e \<Rightarrow> Inl e
      | Inr p \<Rightarrow>
          (case setupLayers setup ls of
             Inl e \<Rightarrow> Inl e
           | Inr rest \<Rightarrow> Inr (\<lparr>fs_layer = l, fs_implementation = p\<rparr> # rest)))"

definition createFrameSource ::
  "(layer \<Rightarrow> error + 'p) \<Rightarrow> clip \<Rightarrow> error + 'p frameSource list" where
  "createFrameSource setup c =
     setupLayers setup (filter (\<lambda>l. layerType l \<noteq> ''audio'') (layers c))"

text \<open>
  The \<open>for (const frameSource of layerFrameSources)\<close> loop of the clip's \<open>readNextFrame\<close>.
  \<open>n\<close> is \<open>layerFrameSources.length\<close>. The result is the value of an early
  \<open>return rgba2\<close> if there was one, the canvas, and the frame sources with their new states
  (those after an early return are not read).
\<close>

fun readLayers ::
  "arithmetic \<Rightarrow> imageCheck \<Rightarrow> ('p, 'o) implementation \<Rightarrow> nat \<Rightarrow> nat \<Rightarrow> nat \<Rightarrow> real option
     \<Rightarrow> 'o canvas \<Rightarrow> 'p frameSource list
     \<Rightarrow> error + (buffer option \<times> 'o canvas \<times> 'p frameSource list)" where
  "readLayers ar accepts impl width height n time canvas [] = Inr (None, canvas, [])"
| "readLayers ar accepts impl width height n time canvas (frameSource # rest) =
     (case FrameSource_readNextFrame ar impl frameSource time canvas of
        Inl e \<Rightarrow> Inl e
      | Inr (None, canvas1, frameSource') \<Rightarrow>
          (case readLayers ar accepts impl width height n time canvas1 rest of
             Inl e \<Rightarrow> Inl e
           | Inr (r, canvas2, rest') \<Rightarrow> Inr (r, canvas2, frameSource' # rest'))
      | Inr (Some rgba2, canvas1, frameSource') \<Rightarrow>
          if n = 1 then Inr (Some rgba2, canvas1, frameSource' # rest)
          else (case rgbaToFabricImage accepts width height rgba2 of
                  Inl e \<Rightarrow> Inl e
                | Inr img \<Rightarrow>
                    (case readLayers ar accepts impl width height n time (canvas_add canvas1 img) rest of
                       Inl e \<Rightarrow> Inl e
                     | Inr (r, canvas2, rest') \<Rightarrow> Inr (r, canvas2, frameSource' # rest'))))"

text \<open>
  \<open>readNextFrame({time})\<close> of the object \<open>createFrameSource\<close> returns. The value is what
  the caller tests for truthiness: \<open>None\<close> would be a falsy value, \<open>Some\<close> is a buffer
  (an object, truthy whatever its length).
\<close>

definition createFrameSource_readNextFrame ::
  "arithmetic \<Rightarrow> imageCheck \<Rightarrow> ('p, 'o) implementation \<Rightarrow> 'o raster \<Rightarrow> nat \<Rightarrow> nat
     \<Rightarrow> 'p frameSource list \<Rightarrow> real option
     \<Rightarrow> error + (buffer option \<times> 'p frameSource list)" where
  "createFrameSource_readNextFrame ar accepts impl raster width height layerFrameSources time =
     (case readLayers ar accepts impl width height (length layerFrameSources) time
             (createFabricCanvas width height) layerFrameSources of
        Inl e \<Rightarrow> Inl e
      | Inr (Some rgba2, canvas, sources') \<Rightarrow> Inr (Some rgba2, sources')
      | Inr (None, canvas, sources') \<Rightarrow> Inr (Some (renderFabricCanvas raster canvas), sources'))"

section \<open>parseConfig: clip durations and transition durations\<close>

text \<open>
  A layer and a clip as they are given to \<open>parseConfig\<close>. A missing property is \<open>None\<close>.
  \<open>in_fileDuration\<close> is the duration that \<open>readVideoFileInfo\<close> (for a video layer) or
  \<open>readDuration\<close> (for an audio layer) reports for the layer's file.
  Of \<open>parseConfig\<close> the model keeps what decides the durations, the time windows and the
  transitions of the clips. It leaves out the checks of files, fonts, texts and functions
  in \<open>handleLayer\<close>, which can only reject a configuration, and the audio tracks.
\<close>

record layerIn =
  in_type :: string
  in_start :: "real option"
  in_stop :: "real option"
  in_cutFrom :: "real option"
  in_cutTo :: "real option"
  in_fileDuration :: real

record clipIn =
  in_layers :: "layerIn list"
  in_duration :: "real option"
  in_transition :: "transitionOptions option"

text \<open>
  A number is truthy when it is present and not 0; \<open>or_number v d\<close> is \<open>v || d\<close> (and
  the result of \<open>if (!v) v = d\<close>).
\<close>

definition truthy_number :: "real option \<Rightarrow> bool" where
  "truthy_number v \<longleftrightarrow> (case v of None \<Rightarrow> False | Some x \<Rightarrow> x \<noteq> 0)"

definition or_number :: "real option \<Rightarrow> real \<Rightarrow> real" where
  "or_number v d = (case v of None \<Rightarrow> d | Some x \<Rightarrow> if x \<noteq> 0 then x else d)"

text \<open>
  The first pass over the layers of a clip. For a video layer it yields the
  \<open>layerDuration = cutTo - cutFrom\<close> of the cut; for the other known types nothing is
  computed; an unknown type is rejected by \<open>handleLayer\<close>.
\<close>

definition knownLayerTypes :: "string list" where
  "knownLayerTypes =
     [''image'', ''image-overlay'', ''fabric'', ''canvas'', ''gl'', ''radial-gradient'',
      ''linear-gradient'', ''fill-color'', ''title'', ''subtitle'', ''news-title'',
      ''slide-in-text'']"

definition firstPassLayer :: "layerIn \<Rightarrow> error + (layerIn \<times> real option)" where
  "firstPassLayer l =
     (if in_type l = ''video'' then
        let fileDuration = in_fileDuration l;
            cutFrom0 = or_number (in_cutFrom l) 0;
            cutFrom = min (max cutFrom0 0) fileDuration;
            cutTo0 = or_number (in_cutTo l) fileDuration;
            cutTo = min (max cutTo0 cutFrom) fileDuration
        in if \<not> cutFrom < cutTo then Inl (AssertionError ''cutFrom must be lower than cutTo'')
           else Inr (l\<lparr>in_cutFrom := Some cutFrom, in_cutTo := Some cutTo\<rparr>,
                     Some (cutTo - cutFrom))
      else if in_type l = ''audio'' \<or> in_type l = ''detached-audio'' then Inr (l, None)
      else if in_type l \<in> set knownLayerTypes then Inr (l, None)
      else Inl (Error ''Invalid layer type''))"

fun firstPassLayers :: "layerIn list \<Rightarrow> error + (layerIn \<times> real option) list" where
  "firstPassLayers [] = Inr []"
| "firstPassLayers (l # ls) =
     (case firstPassLayer l of
        Inl e \<Rightarrow> Inl e
      | Inr x \<Rightarrow> (case firstPassLayers ls of Inl e \<Rightarrow> Inl e | Inr xs \<Rightarrow> Inr (x # xs)))"

text \<open>
  \<open>clipDuration\<close>: the clip's own duration if truthy, else the \<open>layerDuration\<close> of the
  first video layer, else \<open>defaults.duration\<close>; \<open>None\<close> when all are missing.
\<close>

definition resolveClipDuration ::
  "real option \<Rightarrow> real option \<Rightarrow> (layerIn \<times> real option) list \<Rightarrow> real option" where
  "resolveClipDuration defaultDuration given layersOut =
     (if truthy_number given then given
      else (case find (\<lambda>(l, d). in_type l = ''video'') layersOut of
              Some (video, Some video_layerDuration) \<Rightarrow> Some video_layerDuration
            | _ \<Rightarrow> defaultDuration))"

text \<open>
  The second pass over the layers: the time window of each layer inside the clip. An
  audio layer is cut against its file; a \<open>detached-audio\<close> layer is moved out of the clip
  (\<open>None\<close>).
\<close>

definition secondPassLayer :: "real \<Rightarrow> layerIn \<Rightarrow> error + layer option" where
  "secondPassLayer clipDuration layerIn =
     (let start = or_number (in_start layerIn) 0;
          layerDur = or_number (in_stop layerIn) clipDuration - start
      in if \<not> (layerDur > 0 \<and> layerDur \<le> clipDuration)
         then Inl (AssertionError ''Invalid start or stop'')
         else if in_type layerIn = ''audio'' then
           let fileDuration = in_fileDuration layerIn;
               cutFrom0 = or_number (in_cutFrom layerIn) 0;
               cutFrom = min (max cutFrom0 0) fileDuration;
               cutTo0 = or_number (in_cutTo layerIn) (cutFrom + clipDuration);
               cutTo = min (max cutTo0 cutFrom) fileDuration
           in if \<not> cutFrom < cutTo
              then Inl (AssertionError ''cutFrom must be lower than cutTo'')
              else Inr (Some \<lparr>layerType = in_type layerIn, start = Some start,
                               layerDuration = layerDur\<rparr>)
         else if in_type layerIn = ''detached-audio'' then Inr None
         else Inr (Some \<lparr>layerType = in_type layerIn, start = Some start,
                          layerDuration = layerDur\<rparr>))"

fun secondPassLayers :: "real \<Rightarrow> layerIn list \<Rightarrow> error + layer list" where
  "secondPassLayers clipDuration [] = Inr []"
| "secondPassLayers clipDuration (l # ls) =
     (case secondPassLayer clipDuration l of
        Inl e \<Rightarrow> Inl e
      | Inr x \<Rightarrow>
          (case secondPassLayers clipDuration ls of
             Inl e \<Rightarrow> Inl e
           | Inr xs \<Rightarrow> Inr ((case x of None \<Rightarrow> [] | Some y \<Rightarrow> [y]) @ xs)))"

text \<open>The body of the first \<open>pMap\<close> over the clips, for the clip at \<open>clipIndex\<close>.\<close>

definition parseClip ::
  "string list \<Rightarrow> string \<Rightarrow> real option \<Rightarrow> nat \<Rightarrow> clipIn \<Rightarrow> nat \<Rightarrow> error + clip" where
  "parseClip glTransitions randomTransition defaultDuration numClips c clipIndex =
     (case Transition_new glTransitions randomTransition (in_transition c)
             (int clipIndex = int numClips - 1) of
        Inl e \<Rightarrow> Inl e
      | Inr transition0 \<Rightarrow>
          (case firstPassLayers (in_layers c) of
             Inl e \<Rightarrow> Inl e
           | Inr layersOut \<Rightarrow>
               (case resolveClipDuration defaultDuration (in_duration c) layersOut of
                  None \<Rightarrow> Inl (AssertionError ''Duration parameter is required for videoless clip'')
                | Some clipDuration \<Rightarrow>
                    if clipDuration = 0
                    then Inl (AssertionError ''Duration parameter is required for videoless clip'')
                    else (case secondPassLayers clipDuration (map fst layersOut) of
                            Inl e \<Rightarrow> Inl e
                          | Inr layersOut2 \<Rightarrow>
                              Inr \<lparr>transition = transition0, clip_duration = clipDuration,
                                   layers = layersOut2\<rparr>))))"

fun parseClips ::
  "string list \<Rightarrow> (nat \<Rightarrow> string) \<Rightarrow> real option \<Rightarrow> nat \<Rightarrow> clipIn list \<Rightarrow> nat
     \<Rightarrow> error + clip list" where
  "parseClips glTransitions random defaultDuration numClips [] clipIndex = Inr []"
| "parseClips glTransitions random defaultDuration numClips (c # cs) clipIndex =
     (case parseClip glTransitions (random clipIndex) defaultDuration numClips c clipIndex of
        Inl e \<Rightarrow> Inl e
      | Inr clipOut \<Rightarrow>
          (case parseClips glTransitions random defaultDuration numClips cs (Suc clipIndex) of
             Inl e \<Rightarrow> Inl e
           | Inr rest \<Rightarrow> Inr (clipOut # rest)))"

text \<open>
  The second \<open>pMap\<close> over the clips: \<open>safeTransitionDuration\<close> of the clip at index \<open>i\<close>,
  written into \<open>clip.transition.duration\<close>.
\<close>

definition safeTransitionDuration :: "clip list \<Rightarrow> nat \<Rightarrow> real" where
  "safeTransitionDuration clipsOut i =
     (if i + 1 < length clipsOut
      then min (min (clip_duration (clipsOut ! i) / 2) (clip_duration (clipsOut ! (i + 1)) / 2))
               (duration (transition (clipsOut ! i)))
      else 0)"

definition clampTransitions :: "clip list \<Rightarrow> clip list" where
  "clampTransitions clipsOut =
     map (\<lambda>i. (clipsOut ! i)\<lparr>transition :=
                  (transition (clipsOut ! i))\<lparr>duration := safeTransitionDuration clipsOut i\<rparr>\<rparr>)
         [0 ..< length clipsOut]"

definition parseConfig ::
  "string list \<Rightarrow> (nat \<Rightarrow> string) \<Rightarrow> real option \<Rightarrow> clipIn list \<Rightarrow> error + clip list" where
  "parseConfig glTransitions random defaultDuration clips =
     (case parseClips glTransitions random defaultDuration (length clips) clips 0 of
        Inl e \<Rightarrow> Inl e
      | Inr clipsOut \<Rightarrow> Inr (clampTransitions clipsOut))"

text \<open>
  The duration the configuration asks for: \<open>options.duration ?? 0\<close> of the constructor,
  0 as well when the clip has no transition object.
\<close>

definition configuredTransitionDuration :: "clipIn \<Rightarrow> real" where
  "configuredTransitionDuration c =
     (case in_transition c of
        None \<Rightarrow> 0
      | Some opts \<Rightarrow> (case opt_duration opts of None \<Rightarrow> 0 | Some d \<Rightarrow> d))"


section \<open>Editly: the transition scheduler\<close>

text \<open>
  What the main loop of \<open>Editly\<close> is given: the parsed clips, the frame rate, whether a GL
  context can be created, the \<open>gl-transition\<close> drawing function, and the clip renderers.
  \<open>getSource\<close> creates the renderer of a clip (a value of type \<open>'s\<close>) and
  \<open>readNextFrame\<close> reads it at a time; both may throw. The encoder process is taken not to
  fail (\<open>outProcessError\<close> stays unset); \<open>close()\<close> and the progress output are not
  recorded.
\<close>

record 's editlyEnv =
  clips :: "clip list"
  fps :: real
  gl :: bool
  glDraw :: glDraw
  getSource :: "clip \<Rightarrow> nat \<Rightarrow> error + 's"
  readNextFrame :: "'s \<Rightarrow> real option \<Rightarrow> error + (buffer option \<times> 's)"

text \<open>
  The variables of the loop, and the trace of its effects: the buffers written to the
  encoder (\<open>written\<close>), the messages of \<open>console.warn\<close> (\<open>warnings\<close>), and the numbers
  of the output frames that \<open>runTransitionOnFrame\<close> produced (\<open>blendedFrames\<close>).
\<close>

record 's editlyState =
  transitionFromClipId :: nat
  fromClipFrameAt :: int
  toClipFrameAt :: int
  totalFramesWritten :: nat
  frameSource1 :: "'s option"
  frameSource2 :: "'s option"
  frameSource1Data :: "buffer option"
  written :: "buffer list"
  warnings :: "string list"
  blendedFrames :: "nat list"

datatype 's outcome = Continue "'s editlyState" | Break "'s editlyState" | Thrown error

text \<open>\<open>Math.round(clip.duration * fps)\<close>; \<open>Math.round\<close> rounds a half upwards, as \<open>round\<close> does.\<close>

definition clipNumFrames :: "real \<Rightarrow> clip \<Rightarrow> int" where
  "clipNumFrames framerate c = round (clip_duration c * framerate)"

text \<open>
  \<open>clip.duration * (frameAt / numFrames)\<close>: \<open>None\<close> when the quotient is \<open>NaN\<close> or
  infinite.
\<close>

definition clipTime :: "clip \<Rightarrow> int \<Rightarrow> int \<Rightarrow> real option" where
  "clipTime c frameAt numFrames =
     (if numFrames = 0 then None
      else Some (clip_duration c * (real_of_int frameAt / real_of_int numFrames)))"

definition MAX_SAFE_INTEGER :: int where
  "MAX_SAFE_INTEGER = 9007199254740991"

text \<open>\<open>toClipNumFrames\<close> is \<open>None\<close> when there is no next clip.\<close>

definition transitionNumFramesSafe :: "int \<Rightarrow> int option \<Rightarrow> int \<Rightarrow> int" where
  "transitionNumFramesSafe fromClipNumFrames toClipNumFrames transitionNumFrames =
     \<lfloor>min (real_of_int (min fromClipNumFrames
                           (case toClipNumFrames of Some n \<Rightarrow> n | None \<Rightarrow> MAX_SAFE_INTEGER)) / 2)
          (real_of_int transitionNumFrames)\<rfloor>"

text \<open>\<open>getTransitionToSource\<close> when \<open>transitionFromClipId\<close> is \<open>fromClipId\<close>.\<close>

definition getTransitionToSource :: "'s editlyEnv \<Rightarrow> nat \<Rightarrow> error + 's option" where
  "getTransitionToSource env fromClipId =
     (if fromClipId + 1 < length (clips env)
      then (case getSource env (clips env ! (fromClipId + 1)) (fromClipId + 1) of
              Inl e \<Rightarrow> Inl e
            | Inr s \<Rightarrow> Inr (Some s))
      else Inr None)"

text \<open>
  The branch \<open>transitionFrameAt >= transitionLastFrameIndex\<close>: go to the next clip, or
  leave the loop when there is none. \<open>frameSource1.close()\<close> on \<open>undefined\<close> throws.
\<close>

definition switchToNextClip :: "'s editlyEnv \<Rightarrow> 's editlyState \<Rightarrow> int \<Rightarrow> 's outcome" where
  "switchToNextClip env st transitionLastFrameIndex =
     (let st1 = st\<lparr>transitionFromClipId := transitionFromClipId st + 1\<rparr>
      in if \<not> transitionFromClipId st1 < length (clips env) then Break st1
         else (case frameSource1 st1 of
                 None \<Rightarrow> Thrown TypeError
               | Some _ \<Rightarrow>
                   (case getTransitionToSource env (transitionFromClipId st1) of
                      Inl e \<Rightarrow> Thrown e
                    | Inr newFrameSource2 \<Rightarrow>
                        Continue (st1\<lparr>frameSource1 := frameSource2 st1,
                                      frameSource2 := newFrameSource2,
                                      fromClipFrameAt := transitionLastFrameIndex,
                                      toClipFrameAt := 0\<rparr>))))"

text \<open>
  Writing \<open>outFrameData\<close> to the encoder and advancing the counters. Writing \<open>undefined\<close>
  to a stream throws.
\<close>

definition writeFrame :: "'s editlyState \<Rightarrow> buffer option \<Rightarrow> bool \<Rightarrow> 's outcome" where
  "writeFrame st outFrameData isInTransition =
     (case outFrameData of
        None \<Rightarrow> Thrown TypeError
      | Some data \<Rightarrow>
          Continue (st\<lparr>written := written st @ [data],
                       totalFramesWritten := totalFramesWritten st + 1,
                       fromClipFrameAt := fromClipFrameAt st + 1,
                       toClipFrameAt := (if isInTransition then toClipFrameAt st + 1
                                         else toClipFrameAt st)\<rparr>))"

text \<open>The rest of the loop body: read, blend when inside the transition, write.\<close>

definition renderFrame ::
  "'s editlyEnv \<Rightarrow> 's editlyState
     \<Rightarrow> (buffer option \<Rightarrow> buffer \<Rightarrow> real \<Rightarrow> error + buffer option)
     \<Rightarrow> real option \<Rightarrow> real option \<Rightarrow> int \<Rightarrow> int \<Rightarrow> 's outcome" where
  "renderFrame env st runTransition fromClipTime toClipTime numFramesSafe transitionFrameAt =
     (case frameSource1 st of
        None \<Rightarrow> Thrown TypeError
      | Some source1 \<Rightarrow>
          (case readNextFrame env source1 fromClipTime of
             Inl e \<Rightarrow> Thrown e
           | Inr (newFrameSource1Data, source1') \<Rightarrow>
               let st1 = (case newFrameSource1Data of
                            Some data \<Rightarrow>
                              st\<lparr>frameSource1 := Some source1', frameSource1Data := Some data\<rparr>
                          | None \<Rightarrow>
                              st\<lparr>frameSource1 := Some source1',
                                 warnings := warnings st
                                   @ [''No frame data returned, using last frame'']\<rparr>)
               in (case frameSource2 st1 of
                     None \<Rightarrow> writeFrame st1 (frameSource1Data st1) False
                   | Some source2 \<Rightarrow>
                       if \<not> (numFramesSafe > 0 \<and> transitionFrameAt \<ge> 0)
                       then writeFrame st1 (frameSource1Data st1) False
                       else
                         (case readNextFrame env source2 toClipTime of
                            Inl e \<Rightarrow> Thrown e
                          | Inr (None, source2') \<Rightarrow>
                              writeFrame
                                (st1\<lparr>frameSource2 := Some source2',
                                     warnings := warnings st1
                                       @ [''Got no frame data from transitionToClip!'']\<rparr>)
                                (frameSource1Data st1) True
                          | Inr (Some frameSource2Data, source2') \<Rightarrow>
                              (case runTransition (frameSource1Data st1) frameSource2Data
                                      (real_of_int transitionFrameAt / real_of_int numFramesSafe) of
                                 Inl e \<Rightarrow> Thrown e
                               | Inr outFrameData \<Rightarrow>
                                   writeFrame
                                     (st1\<lparr>frameSource2 := Some source2',
                                          blendedFrames := blendedFrames st1
                                            @ [totalFramesWritten st1]\<rparr>)
                                     outFrameData True)))))"

text \<open>
  One iteration of \<open>while (!outProcessError)\<close>. Reading \<open>transitionFromClip.duration\<close> when
  there is no such clip throws.
\<close>

definition tick :: "'s editlyEnv \<Rightarrow> 's editlyState \<Rightarrow> 's outcome" where
  "tick env st =
     (if \<not> transitionFromClipId st < length (clips env) then Thrown TypeError
      else
        let transitionFromClip = clips env ! transitionFromClipId st;
            transitionToClip = (if transitionFromClipId st + 1 < length (clips env)
                                then Some (clips env ! (transitionFromClipId st + 1)) else None);
            fromClipNumFrames = clipNumFrames (fps env) transitionFromClip;
            toClipNumFrames = map_option (clipNumFrames (fps env)) transitionToClip;
            fromClipTime = clipTime transitionFromClip (fromClipFrameAt st) fromClipNumFrames;
            toClipTime = (case transitionToClip of
                            None \<Rightarrow> None
                          | Some c \<Rightarrow> clipTime c (toClipFrameAt st) (clipNumFrames (fps env) c));
            currentTransition = transition transitionFromClip;
            transitionNumFrames = round (duration currentTransition * fps env)
        in case Transition_create (gl env) (glDraw env) currentTransition of
             Inl e \<Rightarrow> Thrown e
           | Inr runTransition \<Rightarrow>
               let numFramesSafe =
                     transitionNumFramesSafe fromClipNumFrames toClipNumFrames transitionNumFrames;
                   transitionFrameAt = fromClipFrameAt st - (fromClipNumFrames - numFramesSafe);
                   transitionLastFrameIndex = numFramesSafe
               in if transitionFrameAt \<ge> transitionLastFrameIndex
                  then switchToNextClip env st transitionLastFrameIndex
                  else renderFrame env st runTransition fromClipTime toClipTime
                         numFramesSafe transitionFrameAt)"


text \<open>
  The loop: it goes on after an iteration that ends normally or by \<open>continue\<close>, stops at
  \<open>break\<close>, and an exception leaves it. Every iteration either writes a frame of the
  current clip or moves to the next clip, so the loop ends.
\<close>

function run :: "'s editlyEnv \<Rightarrow> 's editlyState \<Rightarrow> error + 's editlyState" where
  "run env st =
     (case tick env st of
        Continue st' \<Rightarrow> run env st'
      | Break st' \<Rightarrow> Inr st'
      | Thrown e \<Rightarrow> Inl e)"
  by pat_completeness auto
termination
proof (relation "inv_image (less_than <*lex*> less_than)
         (\<lambda>(env, st). (length (clips env) - transitionFromClipId st,
                        nat (clipNumFrames (fps env) (clips env ! transitionFromClipId st)
                             - fromClipFrameAt st)))", goal_cases)
  case 1
  show ?case by (intro wf_inv_image wf_lex_prod wf_less_than)
next
  case (2 env st st')
  have sw: "transitionFromClipId st' = transitionFromClipId st + 1
            \<and> transitionFromClipId st' < length (clips env)"
    if "switchToNextClip env st k = Continue st'" for k
    using that
    by (auto simp: switchToNextClip_def Let_def split: if_splits option.splits sum.splits)
  have wr: "transitionFromClipId st' = transitionFromClipId s
            \<and> fromClipFrameAt st' = fromClipFrameAt s + 1"
    if "writeFrame s out b = Continue st'" for s out b
    using that by (auto simp: writeFrame_def split: option.splits)
  have rd: "transitionFromClipId st' = transitionFromClipId st
            \<and> fromClipFrameAt st' = fromClipFrameAt st + 1"
    if "renderFrame env st r t1 t2 k a = Continue st'" for r t1 t2 k a
    using that
    by (auto simp: renderFrame_def Let_def dest!: wr
             split: option.splits sum.splits prod.splits if_splits)
  from 2 show ?case
    by (auto simp: tick_def Let_def dest!: sw rd split: if_splits sum.splits)
qed

declare run.simps [simp del]

text \<open>
  \<open>Editly\<close> from the creation of the first two clip renderers to the end of the loop.
  With no clip at all, \<open>createFrameSource\<close> reads the properties of \<open>undefined\<close> and
  throws.
\<close>

definition Editly :: "'s editlyEnv \<Rightarrow> error + 's editlyState" where
  "Editly env =
     (case clips env of
        [] \<Rightarrow> Inl TypeError
      | c # _ \<Rightarrow>
          (case getSource env c 0 of
             Inl e \<Rightarrow> Inl e
           | Inr source1 \<Rightarrow>
               (case getTransitionToSource env 0 of
                  Inl e \<Rightarrow> Inl e
                | Inr source2 \<Rightarrow>
                    run env \<lparr>transitionFromClipId = 0, fromClipFrameAt = 0, toClipFrameAt = 0,
                             totalFramesWritten = 0, frameSource1 = Some source1,
                             frameSource2 = source2, frameSource1Data = None,
                             written = [], warnings = [], blendedFrames = []\<rparr>)))"

text \<open>
  The scheduler driven by the clip renderers of \<open>createFrameSource\<close>, as \<open>Editly\<close> sets
  it up: \<open>setup\<close> and \<open>impl\<close> are the layer producers, \<open>raster\<close> the canvas renderer,
  \<open>ar\<close> the arithmetic of the layers' time windows, \<open>accepts\<close> the image check of the
  canvas library.
\<close>

definition editlyEnv ::
  "arithmetic \<Rightarrow> imageCheck \<Rightarrow> clip list \<Rightarrow> real \<Rightarrow> nat \<Rightarrow> nat \<Rightarrow> bool \<Rightarrow> glDraw
     \<Rightarrow> (layer \<Rightarrow> error + 'p) \<Rightarrow> ('p, 'o) implementation \<Rightarrow> 'o raster
     \<Rightarrow> 'p frameSource list editlyEnv" where
  "editlyEnv ar accepts cs framerate width height hasGl draw setup impl raster =
     \<lparr>clips = cs, fps = framerate, gl = hasGl, glDraw = draw,
      getSource = (\<lambda>c clipIndex. createFrameSource setup c),
      readNextFrame = createFrameSource_readNextFrame ar accepts impl raster width height\<rparr>"

section \<open>Scenarios\<close>

text \<open>
  Scenario A: a clip of 2 seconds with a transition of 1 second, then a clip of 3 seconds,
  at 10 frames per second. The transition is the named transition \<open>fade\<close>; the frames of
  clip \<open>i\<close> and the blended frames are left open (\<open>frame\<close>, \<open>blend\<close>).
\<close>

definition scenarioA_config :: "clipIn list" where
  "scenarioA_config =
     [\<lparr>in_layers = [], in_duration = Some 2,
       in_transition = Some \<lparr>opt_duration = Some 1, opt_name = Some ''fade'',
                              opt_easing = None, opt_params = None\<rparr>\<rparr>,
      \<lparr>in_layers = [], in_duration = Some 3, in_transition = None\<rparr>]"

definition scenarioA_env ::
  "(nat \<Rightarrow> real option \<Rightarrow> buffer) \<Rightarrow> (real \<Rightarrow> buffer \<Rightarrow> buffer \<Rightarrow> buffer) \<Rightarrow> clip list
     \<Rightarrow> nat editlyEnv" where
  "scenarioA_env frame blend cs =
     \<lparr>clips = cs, fps = 10, gl = True,
      glDraw = (\<lambda>src prms progress fromBuf toBuf. Inr (blend progress fromBuf toBuf)),
      getSource = (\<lambda>c clipIndex. Inr clipIndex),
      readNextFrame = (\<lambda>clipIndex time. Inr (Some (frame clipIndex time), clipIndex))\<rparr>"

definition scenarioA ::
  "(nat \<Rightarrow> real option \<Rightarrow> buffer) \<Rightarrow> (real \<Rightarrow> buffer \<Rightarrow> buffer \<Rightarrow> buffer)
     \<Rightarrow> error + nat editlyState" where
  "scenarioA frame blend =
     (case parseConfig [''fade''] (\<lambda>i. ''fade'') None scenarioA_config of
        Inl e \<Rightarrow> Inl e
      | Inr cs \<Rightarrow> Editly (scenarioA_env frame blend cs))"

text \<open>
  A transition without a \<open>source\<close> (no name, or the name \<open>dummy\<close>), with the default
  easing, and a drawing function for the cases where none is needed.
\<close>

definition cutTransition :: transition where
  "cutTransition =
     \<lparr>name = None, duration = 0, params = None, easingFunction = linear_easing,
      source = None\<rparr>"

definition noGlDraw :: glDraw where
  "noGlDraw src prms progress fromBuf toBuf = Inl (Error ''no GL'')"

text \<open>
  A frame source for a layer with the window from 0 to 2 seconds, whose producer records
  its invocations and has not been invoked yet.
\<close>

definition windowLayerSource :: "real list frameSource" where
  "windowLayerSource =
     \<lparr>fs_layer = \<lparr>layerType = ''fill-color'', start = Some 0, layerDuration = 2\<rparr>,
      fs_implementation = []\<rparr>"

text \<open>
  The frames of scenario A when nothing is left open: the frames of clip \<open>i\<close> are the
  single byte \<open>i\<close>, a blended frame is the single byte 255.
\<close>

definition scenarioA_frame :: "nat \<Rightarrow> real option \<Rightarrow> buffer" where
  "scenarioA_frame clipIndex time = [of_nat clipIndex]"

definition scenarioA_blend :: "real \<Rightarrow> buffer \<Rightarrow> buffer \<Rightarrow> buffer" where
  "scenarioA_blend progress fromBuf toBuf = [255]"

text \<open>
  The number of blended frames and the number of all frames written by a run that ended
  normally.
\<close>

definition frameCounts :: "error + 's editlyState \<Rightarrow> (nat \<times> nat) option" where
  "frameCounts result =
     (case result of
        Inl e \<Rightarrow> None
      | Inr st \<Rightarrow> Some (length (blendedFrames st), length (written st)))"

text \<open>
  A configuration of three clips of 1, 3 and 2 seconds; the first asks for a transition of
  2 seconds, the second for one of 1 second, the third for one of 5 seconds.
\<close>

definition scenarioB_config :: "clipIn list" where
  "scenarioB_config =
     [\<lparr>in_layers = [], in_duration = Some 1,
       in_transition = Some \<lparr>opt_duration = Some 2, opt_name = Some ''fade'',
                              opt_easing = None, opt_params = None\<rparr>\<rparr>,
      \<lparr>in_layers = [], in_duration = Some 3,
       in_transition = Some \<lparr>opt_duration = Some 1, opt_name = Some ''fade'',
                              opt_easing = None, opt_params = None\<rparr>\<rparr>,
      \<lparr>in_layers = [], in_duration = Some 2,
       in_transition = Some \<lparr>opt_duration = Some 5, opt_name = Some ''fade'',
                              opt_easing = None, opt_params = None\<rparr>\<rparr>]"

text \<open>A layer producer that leaves the size of the canvas as it is.\<close>

definition keepsCanvasSize :: "('p, 'o) implementation \<Rightarrow> bool" where
  "keepsCanvasSize impl \<longleftrightarrow>
     (\<forall>p progress c t r c' p'.
        impl p progress c t = Inr (r, c', p') \<longrightarrow>
          canvasWidth c' = canvasWidth c \<and> canvasHeight c' = canvasHeight c)"

text \<open>
  For a canvas of 2 by 2 pixels: a producer that returns a buffer of 16 equal bytes, a
  producer that returns a buffer of 3 bytes, and a renderer that paints every byte 0.
\<close>

definition solidProducer :: "(nat, unit) implementation" where
  "solidProducer calls progress canvas t = Inr (Some (replicate 16 7), canvas, Suc calls)"

definition shortProducer :: "(nat, unit) implementation" where
  "shortProducer calls progress canvas t = Inr (Some [1, 2, 3], canvas, Suc calls)"

definition zeroRaster :: "unit raster" where
  "zeroRaster objs width height i = 0"

text \<open>
  A clip of 1 second with two layers over the whole clip, the frame sources that
  \<open>createFrameSource\<close> makes of them for producers that count their reads from 0, and the
  run of this clip at 2 frames per second.
\<close>

definition twoLayerClip :: clip where
  "twoLayerClip =
     \<lparr>transition = cutTransition, clip_duration = 1,
      layers = [\<lparr>layerType = ''canvas'', start = Some 0, layerDuration = 1\<rparr>,
                \<lparr>layerType = ''gl'', start = Some 0, layerDuration = 1\<rparr>]\<rparr>"

definition twoLayerSources :: "nat frameSource list" where
  "twoLayerSources =
     [\<lparr>fs_layer = \<lparr>layerType = ''canvas'', start = Some 0, layerDuration = 1\<rparr>,
       fs_implementation = 0\<rparr>,
      \<lparr>fs_layer = \<lparr>layerType = ''gl'', start = Some 0, layerDuration = 1\<rparr>,
       fs_implementation = 0\<rparr>]"

definition twoLayerEnv :: "nat frameSource list editlyEnv" where
  "twoLayerEnv =
     editlyEnv exactArithmetic strictImageData [twoLayerClip] 2 2 2 True noGlDraw (\<lambda>l. Inr 0)
       solidProducer zeroRaster"

text \<open>
  A frame source for a sole layer over a clip of 1 second whose producer has not been
  read yet.
\<close>

definition soleLayerSource :: "nat frameSource" where
  "soleLayerSource =
     \<lparr>fs_layer = \<lparr>layerType = ''fabric'', start = Some 0, layerDuration = 1\<rparr>,
      fs_implementation = 0\<rparr>"




section \<open>Properties of the chunk reassembler\<close>

lemma whole_frames_short: "length bs < n \<Longrightarrow> whole_frames n bs = []"
  by (subst whole_frames.simps) simp

lemma whole_frames_zero: "whole_frames 0 bs = []"
  by (subst whole_frames.simps) simp

lemma whole_frames_step:
  "0 < n \<Longrightarrow> n \<le> length bs \<Longrightarrow> whole_frames n bs = take n bs # whole_frames n (drop n bs)"
  by (subst whole_frames.simps) simp

lemma pending_short: "length bs < n \<Longrightarrow> pending n bs = bs"
  by (simp add: pending_def)

lemma pending_step: "0 < n \<Longrightarrow> n \<le> length bs \<Longrightarrow> pending n bs = pending n (drop n bs)"
proof -
  assume n: "0 < n" and le: "n \<le> length bs"
  have "length bs div n = Suc ((length bs - n) div n)"
    using n le by (simp add: le_div_geq)
  then show ?thesis
    by (simp add: pending_def add.commute)
qed

lemma length_pending: "0 < n \<Longrightarrow> length (pending n bs) = length bs mod n"
  by (simp add: pending_def minus_div_mult_eq_mod)

lemma length_whole_frames: "0 < n \<Longrightarrow> length (whole_frames n bs) = length bs div n"
proof (induction n bs rule: whole_frames.induct)
  case (1 n bs)
  show ?case
  proof (cases "length bs < n")
    case True
    then show ?thesis by (simp add: whole_frames_short)
  next
    case False
    then have le: "n \<le> length bs" by simp
    have "length (whole_frames n (drop n bs)) = (length bs - n) div n"
      using "1.IH" "1.prems" False by simp
    then show ?thesis
      using "1.prems" le by (simp add: whole_frames_step le_div_geq)
  qed
qed

lemma whole_frames_lengths: "f \<in> set (whole_frames n bs) \<Longrightarrow> length f = n"
proof (induction n bs arbitrary: f rule: whole_frames.induct)
  case (1 n bs)
  show ?case
  proof (cases "n = 0 \<or> length bs < n")
    case True
    then have "whole_frames n bs = []" by (subst whole_frames.simps) simp
    with "1.prems" show ?thesis by simp
  next
    case False
    then have w: "whole_frames n bs = take n bs # whole_frames n (drop n bs)"
      by (simp add: whole_frames_step)
    from "1.prems" w have "f = take n bs \<or> f \<in> set (whole_frames n (drop n bs))" by simp
    then show ?thesis
    proof
      assume "f = take n bs" then show ?thesis using False by simp
    next
      assume "f \<in> set (whole_frames n (drop n bs))"
      then show ?thesis using "1.IH" False by blast
    qed
  qed
qed

lemma concat_whole_frames:
  "0 < n \<Longrightarrow> concat (whole_frames n bs) @ pending n bs = bs"
proof (induction n bs rule: whole_frames.induct)
  case (1 n bs)
  show ?case
  proof (cases "length bs < n")
    case True
    then show ?thesis by (simp add: whole_frames_short pending_short)
  next
    case False
    then have le: "n \<le> length bs" by simp
    have "concat (whole_frames n (drop n bs)) @ pending n (drop n bs) = drop n bs"
      using "1.IH" "1.prems" False by simp
    then show ?thesis
      using "1.prems" le by (simp add: whole_frames_step pending_step[of n bs])
  qed
qed

lemma whole_frames_append:
  "0 < n \<Longrightarrow> whole_frames n (xs @ ys) = whole_frames n xs @ whole_frames n (pending n xs @ ys)"
proof (induction n xs rule: whole_frames.induct)
  case (1 n xs)
  show ?case
  proof (cases "length xs < n")
    case True
    then show ?thesis by (simp add: whole_frames_short pending_short)
  next
    case False
    then have le: "n \<le> length xs" by simp
    have ih: "whole_frames n (drop n xs @ ys) =
              whole_frames n (drop n xs) @ whole_frames n (pending n (drop n xs) @ ys)"
      using "1.IH" "1.prems" False by simp
    have "whole_frames n (xs @ ys) = take n xs # whole_frames n (drop n xs @ ys)"
      using "1.prems" le by (simp add: whole_frames_step)
    then show ?thesis
      using "1.prems" le ih by (simp add: whole_frames_step pending_step[of n xs])
  qed
qed

lemma pending_append:
  "0 < n \<Longrightarrow> pending n (xs @ ys) = pending n (pending n xs @ ys)"
proof (induction n xs rule: whole_frames.induct)
  case (1 n xs)
  show ?case
  proof (cases "length xs < n")
    case True
    then show ?thesis by (simp add: pending_short)
  next
    case False
    then have le: "n \<le> length xs" by simp
    have ih: "pending n (drop n xs @ ys) = pending n (pending n (drop n xs) @ ys)"
      using "1.IH" "1.prems" False by simp
    have "pending n (xs @ ys) = pending n (drop n (xs @ ys))"
      using "1.prems" le by (intro pending_step) simp_all
    then show ?thesis
      using "1.prems" le ih by (simp add: pending_step[of n xs])
  qed
qed

text \<open>The state in which the bytes \<open>pre\<close> of an incomplete frame are in the buffer.\<close>

lemma transform_loop_frames:
  assumes "0 < n" and "length pre < n" and "s \<le> length chunk"
    and "bytesRead st = Some (length pre)"
    and "buffer st = pre @ replicate (n - length pre) 0"
  shows "transform_loop n chunk (Some s) st =
           Inr \<lparr>buffer = pending n (pre @ drop s chunk)
                          @ replicate (n - length (pending n (pre @ drop s chunk))) 0,
                bytesRead = Some (length (pending n (pre @ drop s chunk))),
                pushed = pushed st @ whole_frames n (pre @ drop s chunk)\<rparr>"
  using assms
proof (induction "length chunk - s" arbitrary: s st pre rule: less_induct)
  case less
  let ?r = "length pre"
  show ?case
  proof (cases "s < length chunk")
    case False
    then have "drop s chunk = []" by simp
    moreover have "transform_loop n chunk (Some s) st = Inr st"
      using False by (subst transform_loop.simps) simp
    ultimately show ?thesis
      using less.prems by (simp add: pending_short whole_frames_short)
  next
    case True
    show ?thesis
    proof (cases "s + n - ?r \<le> length chunk")
      case full: True
      let ?e = "s + n - ?r"
      let ?taken = "take (n - ?r) (drop s chunk)"
      have lt: "length ?taken = n - ?r" using full less.prems by simp
      have se: "s < ?e" using less.prems by simp
      have buf: "buffer_set (buffer st) (slice chunk s ?e) ?r = pre @ ?taken"
        using less.prems lt by (simp add: buffer_set_def slice_def)
      have md: "js_mod (?r + (?e - s)) n = Some 0"
        using less.prems by (simp add: js_mod_def)
      let ?st' = "\<lparr>buffer = new_Uint8Array n, bytesRead = Some 0, pushed = pushed st @ [pre @ ?taken]\<rparr>"
      have step: "transform_loop n chunk (Some s) st = transform_loop n chunk (Some ?e) ?st'"
        apply (subst transform_loop.simps)
        using True full less.prems buf md
        by (simp add: Let_def min_absorb1)
      have ih: "transform_loop n chunk (Some ?e) ?st' =
           Inr \<lparr>buffer = pending n ([] @ drop ?e chunk)
                          @ replicate (n - length (pending n ([] @ drop ?e chunk))) 0,
                bytesRead = Some (length (pending n ([] @ drop ?e chunk))),
                pushed = pushed ?st' @ whole_frames n ([] @ drop ?e chunk)\<rparr>"
        by (rule less.hyps) (use se full less.prems True in \<open>simp_all add: new_Uint8Array_def\<close>)
      have len: "n \<le> length (pre @ drop s chunk)" using full less.prems by simp
      have rn: "length pre < n" by fact
      have tk: "take n (pre @ drop s chunk) = pre @ ?taken" using rn by simp
      have ar: "n - ?r + s = ?e" using rn by linarith
      have dr: "drop n (pre @ drop s chunk) = drop ?e chunk"
        using rn by (simp add: ar)
      have wf: "whole_frames n (pre @ drop s chunk) = (pre @ ?taken) # whole_frames n (drop ?e chunk)"
        by (simp only: whole_frames_step[OF \<open>0 < n\<close> len] tk dr)
      have pd: "pending n (pre @ drop s chunk) = pending n (drop ?e chunk)"
        by (simp only: pending_step[OF \<open>0 < n\<close> len] dr)
      show ?thesis
        unfolding step ih wf pd by simp
    next
      case part: False
      let ?taken = "drop s chunk"
      have lt: "length ?taken < n - ?r" using part less.prems by simp
      have short: "length (pre @ ?taken) < n" using lt by simp
      have buf: "buffer_set (buffer st) (slice chunk s (length chunk)) ?r
                 = (pre @ ?taken) @ replicate (n - length (pre @ ?taken)) 0"
        using less.prems lt by (simp add: buffer_set_def slice_def)
      have md: "js_mod (?r + (length chunk - s)) n = Some (length (pre @ ?taken))"
        using less.prems lt by (simp add: js_mod_def)
      have nz: "length (pre @ ?taken) \<noteq> 0" using True by simp
      let ?st' = "\<lparr>buffer = (pre @ ?taken) @ replicate (n - length (pre @ ?taken)) 0,
                   bytesRead = Some (length (pre @ ?taken)), pushed = pushed st\<rparr>"
      have step: "transform_loop n chunk (Some s) st = transform_loop n chunk (Some (length chunk)) ?st'"
        apply (subst transform_loop.simps)
        using True part less.prems buf md nz
        by (simp add: Let_def min_absorb2)
      have fin: "transform_loop n chunk (Some (length chunk)) ?st' = Inr ?st'"
        by (subst transform_loop.simps) simp
      show ?thesis
        unfolding step fin using short by (simp add: pending_short whole_frames_short)
    qed
  qed
qed

lemma transform_all_frames:
  assumes "0 < n" and "length pre < n"
    and "bytesRead st = Some (length pre)"
    and "buffer st = pre @ replicate (n - length pre) 0"
  shows "\<exists>st'. transform_all n st chunks = Inr st'
               \<and> pushed st' = pushed st @ whole_frames n (pre @ concat chunks)"
  using assms
proof (induction chunks arbitrary: st pre)
  case Nil
  then show ?case by (simp add: whole_frames_short)
next
  case (Cons chunk chunks)
  let ?pre' = "pending n (pre @ chunk)"
  let ?st' = "\<lparr>buffer = ?pre' @ replicate (n - length ?pre') 0,
               bytesRead = Some (length ?pre'),
               pushed = pushed st @ whole_frames n (pre @ chunk)\<rparr>"
  have t: "transform n st chunk = Inr ?st'"
    unfolding transform_def
    using transform_loop_frames[OF Cons.prems(1,2) _ Cons.prems(3,4), of 0 chunk] by simp
  have short: "length ?pre' < n"
    using Cons.prems(1) by (simp add: length_pending)
  obtain st'' where r: "transform_all n ?st' chunks = Inr st''"
      and p: "pushed st'' = pushed ?st' @ whole_frames n (?pre' @ concat chunks)"
    using Cons.IH[OF Cons.prems(1) short, of ?st'] by auto
  have "whole_frames n (pre @ concat (chunk # chunks))
        = whole_frames n (pre @ chunk) @ whole_frames n (?pre' @ concat chunks)"
    using whole_frames_append[OF Cons.prems(1), of "pre @ chunk" "concat chunks"] by simp
  then show ?case using t r p by simp
qed

lemma transform_loop_NaN:
  "bytesRead st = None \<Longrightarrow> transform_loop n chunk startAt st = Inr st"
  by (subst transform_loop.simps, subst transform_loop.simps)
     (simp split: option.splits)

lemma transform_loop_zero:
  assumes "bytesRead st = None \<or> bytesRead st = Some 0"
  shows "\<exists>st'. transform_loop 0 chunk startAt st = Inr st'
               \<and> pushed st' = pushed st \<and> bytesRead st' = None
          \<or> transform_loop 0 chunk startAt st = Inr st"
proof (cases "bytesRead st")
  case None
  then show ?thesis by (simp add: transform_loop_NaN)
next
  case (Some r)
  then have r: "bytesRead st = Some 0" using assms by simp
  show ?thesis
  proof (cases startAt)
    case None
    then show ?thesis by (subst (2) transform_loop.simps) simp
  next
    case s: (Some s)
    show ?thesis
    proof (cases "s < length chunk")
      case False
      then show ?thesis using s by (subst (2) transform_loop.simps) simp
    next
      case True
      have "transform_loop 0 chunk startAt st
            = transform_loop 0 chunk (Some s)
                \<lparr>buffer = buffer_set (buffer st) (slice chunk s s) 0,
                 bytesRead = None, pushed = pushed st\<rparr>"
        using True s r
        by (subst transform_loop.simps) (simp add: js_mod_def Let_def min_absorb1)
      then show ?thesis by (simp add: transform_loop_NaN)
    qed
  qed
qed

lemma transform_all_zero:
  assumes "bytesRead st = None \<or> bytesRead st = Some 0"
  shows "\<exists>st'. transform_all 0 st chunks = Inr st' \<and> pushed st' = pushed st"
  using assms
proof (induction chunks arbitrary: st)
  case Nil
  then show ?case by simp
next
  case (Cons chunk chunks)
  from transform_loop_zero[OF Cons.prems, of chunk "Some 0"]
  obtain st1 where t: "transform 0 st chunk = Inr st1"
    and p: "pushed st1 = pushed st"
    and b: "bytesRead st1 = None \<or> bytesRead st1 = Some 0"
    unfolding transform_def using Cons.prems by auto
  from Cons.IH[OF b] obtain st' where "transform_all 0 st1 chunks = Inr st'"
    and "pushed st' = pushed st1" by auto
  then show ?case using t p by simp
qed

lemma rawVideoToFrames_eq:
  "rawVideoToFrames width height channels chunks
   = Inr (whole_frames (width * height * channels) (concat chunks))"
proof (cases "width * height * channels = 0")
  case True
  obtain st' where "transform_all 0 \<lparr>buffer = new_Uint8Array 0, bytesRead = Some 0, pushed = []\<rparr> chunks = Inr st'"
    and "pushed st' = []"
    using transform_all_zero[of "\<lparr>buffer = new_Uint8Array 0, bytesRead = Some 0, pushed = []\<rparr>" chunks]
    by auto
  then show ?thesis
    unfolding rawVideoToFrames_def Let_def True by (simp add: whole_frames_zero)
next
  case False
  let ?n = "width * height * channels"
  let ?st = "\<lparr>buffer = new_Uint8Array ?n, bytesRead = Some 0, pushed = []\<rparr>"
  have n: "0 < ?n" using False by simp
  have "\<exists>st'. transform_all ?n ?st chunks = Inr st'
             \<and> pushed st' = pushed ?st @ whole_frames ?n ([] @ concat chunks)"
    by (rule transform_all_frames[OF n]) (use n in \<open>simp_all add: new_Uint8Array_def\<close>)
  then obtain st' where "transform_all ?n ?st chunks = Inr st'"
    and "pushed st' = pushed ?st @ whole_frames ?n ([] @ concat chunks)"
    by blast
  then show ?thesis
    by (simp add: rawVideoToFrames_def Let_def)
qed

lemma concat_whole_frames_take:
  assumes "0 < n"
  shows "concat (whole_frames n bs) = take (length (whole_frames n bs) * n) bs"
proof -
  have "length (concat (whole_frames n bs)) + length (pending n bs) = length bs"
    using concat_whole_frames[OF assms, of bs] by (metis length_append)
  then have l: "length (concat (whole_frames n bs)) = length (whole_frames n bs) * n"
    using assms by (simp add: length_pending length_whole_frames minus_mod_eq_div_mult [symmetric])
  have "take (length (concat (whole_frames n bs))) (concat (whole_frames n bs) @ pending n bs)
        = concat (whole_frames n bs)"
    by simp
  then show ?thesis
    using concat_whole_frames[OF assms, of bs] l by simp
qed

text \<open>
  C3. The reassembler does not depend on the chunk boundaries: any way of cutting a byte
  stream into chunks, one byte per chunk included, emits the frames that the whole
  stream given as a single chunk emits, and it does emit them (no exception).
\<close>

theorem rawVideoToFrames_chunk_boundary_invariant:
  "rawVideoToFrames width height channels chunks
     = rawVideoToFrames width height channels [concat chunks]
   \<and> rawVideoToFrames width height channels (map (\<lambda>b. [b]) bytes)
     = rawVideoToFrames width height channels [bytes]
   \<and> (\<exists>frames. rawVideoToFrames width height channels chunks = Inr frames)"
proof -
  have "concat (map (\<lambda>b. [b]) bytes) = bytes"
    by (induction bytes) simp_all
  then show ?thesis
    by (simp add: rawVideoToFrames_eq)
qed

text \<open>
  C4. Every emitted buffer has exactly \<open>width * height * channels\<close> bytes; the emitted
  frames are the complete frames at the start of the input, in order; a trailing partial
  frame is left out, and the stream does not fail because of it.
\<close>

theorem rawVideoToFrames_exact_frames:
  "\<exists>frames. rawVideoToFrames width height channels chunks = Inr frames
      \<and> (\<forall>f \<in> set frames. length f = width * height * channels)
      \<and> length frames = (if width * height * channels = 0 then 0
                         else length (concat chunks) div (width * height * channels))
      \<and> concat frames = take (length frames * (width * height * channels)) (concat chunks)"
proof (cases "width * height * channels = 0")
  case True
  show ?thesis
    unfolding rawVideoToFrames_eq True by (simp add: whole_frames_zero)
next
  case False
  then have n: "0 < width * height * channels" by simp
  show ?thesis
    unfolding rawVideoToFrames_eq
    using n whole_frames_lengths[of _ "width * height * channels" "concat chunks"]
      length_whole_frames[OF n, of "concat chunks"]
      concat_whole_frames_take[OF n, of "concat chunks"]
    by auto
qed

text \<open>
  An instance: frames of 2 bytes, input bytes 1, 2, 3 in chunks of 1 and 2 bytes; one frame
  is emitted and the third byte is left out.
\<close>

theorem rawVideoToFrames_exact_frames_witness:
  "\<exists>frames. rawVideoToFrames 1 1 2 [[1], [2, 3]] = Inr frames
      \<and> frames \<noteq> [] \<and> (\<forall>f \<in> set frames. length f = 2)
      \<and> length frames = 1 \<and> concat frames = [1, 2]"
  using rawVideoToFrames_exact_frames[of 1 1 2 "[[1], [2, 3]]"]
  by auto



section \<open>The time window of a layer\<close>







section \<open>The cut compositor\<close>

text \<open>
  C5. For a transition without a named source, the function that \<open>Transition.create\<close>
  returns gives back the "from" buffer itself when the eased progress is at most 0.5 and
  the "to" buffer itself when it is greater, for all buffers and every progress value.
\<close>

theorem cut_compositor_selects:
  assumes "source this = None"
  shows "Transition_create True draw this = Inr (runTransitionOnFrame draw this)
       \<and> runTransitionOnFrame draw this (Some fromFrame) toFrame progress
           = Inr (Some (if easingFunction this progress \<le> 0.5 then fromFrame else toFrame))"
  using assms by (simp add: Transition_create_def runTransitionOnFrame_def not_less [symmetric])

text \<open>An instance: linear easing at the progress values 0.5 and 0.75.\<close>

theorem cut_compositor_selects_witness:
  "source cutTransition = None
   \<and> runTransitionOnFrame noGlDraw cutTransition (Some [1, 2]) [3, 4] 0.5 = Inr (Some [1, 2])
   \<and> runTransitionOnFrame noGlDraw cutTransition (Some [1, 2]) [3, 4] 0.75 = Inr (Some [3, 4])"
  using cut_compositor_selects [of cutTransition noGlDraw "[1, 2]" "[3, 4]" "0.5"]
        cut_compositor_selects [of cutTransition noGlDraw "[1, 2]" "[3, 4]" "0.75"]
  by (simp add: cutTransition_def linear_easing_def)

text \<open>The constructor builds such a transition for the name \<open>dummy\<close>.\<close>

lemma cutTransition_constructed:
  "Transition_new [] [] (Some \<lparr>opt_duration = Some 1, opt_name = Some ''dummy'',
                                opt_easing = None, opt_params = None\<rparr>) False
     = Inr (cutTransition\<lparr>duration := 1, name := Some ''dummy''\<rparr>)"
  by (simp add: Transition_new_def cutTransition_def truthy_string_def TransitionAliases_def
                defaultedOptions_def withRandomName_def withAlias_def Let_def)

section \<open>Transition durations after parsing\<close>

text \<open>The constructor takes the duration from the options; aliases do not change it.\<close>

lemma opt_duration_withAlias: "opt_duration (withAlias opts) = opt_duration opts"
  by (simp add: withAlias_def split: option.splits prod.splits)

lemma opt_duration_withRandomName: "opt_duration (withRandomName r opts) = opt_duration opts"
  by (simp add: withRandomName_def)

lemma Transition_new_duration:
  assumes "Transition_new glTransitions randomTransition opts isLastClip = Inr t"
  shows "duration t =
           (case opt_duration (defaultedOptions opts isLastClip) of Some d \<Rightarrow> d | None \<Rightarrow> 0)"
proof -
  let ?o3 = "withAlias (withRandomName randomTransition (defaultedOptions opts isLastClip))"
  have d: "opt_duration ?o3 = opt_duration (defaultedOptions opts isLastClip)"
    by (simp add: opt_duration_withAlias opt_duration_withRandomName)
  from assms have "duration t = (case opt_duration ?o3 of Some d \<Rightarrow> d | None \<Rightarrow> 0)"
    unfolding Transition_new_def Let_def
    by (cases "opt_name ?o3"; cases "find (\<lambda>n. toLowerCase n = toLowerCase (the (opt_name ?o3))) glTransitions")
       (auto split: if_splits)
  then show ?thesis by (simp only: d)
qed

lemma defaultedOptions_duration:
  "(case opt_duration (defaultedOptions opts isLastClip) of Some d \<Rightarrow> d | None \<Rightarrow> 0)
   = (if isLastClip then 0
      else (case opts of None \<Rightarrow> 0
            | Some given \<Rightarrow> (case opt_duration given of None \<Rightarrow> 0 | Some d \<Rightarrow> d)))"
  by (simp add: defaultedOptions_def split: option.splits)

lemma parseClip_transition_duration:
  assumes "parseClip glTransitions r d n c idx = Inr out"
  shows "duration (transition out)
         = (if int idx = int n - 1 then 0 else configuredTransitionDuration c)"
proof -
  from assms obtain t where t: "Transition_new glTransitions r (in_transition c) (int idx = int n - 1) = Inr t"
    and o: "transition out = t"
    unfolding parseClip_def
    by (auto split: sum.splits option.splits if_splits)
  show ?thesis
    unfolding o Transition_new_duration[OF t] defaultedOptions_duration
    by (simp add: configuredTransitionDuration_def)
qed

lemma parseClips_nth:
  assumes "parseClips glTransitions rnd d n cs k = Inr outs"
  shows "length outs = length cs
       \<and> (\<forall>i<length cs. parseClip glTransitions (rnd (k + i)) d n (cs ! i) (k + i) = Inr (outs ! i))"
  using assms
proof (induction cs arbitrary: k outs)
  case Nil
  then show ?case by simp
next
  case (Cons c cs)
  from Cons.prems obtain out rest where
    c: "parseClip glTransitions (rnd k) d n c k = Inr out"
    and r: "parseClips glTransitions rnd d n cs (Suc k) = Inr rest"
    and outs: "outs = out # rest"
    by (auto split: sum.splits)
  from Cons.IH[OF r] have len: "length rest = length cs"
    and nth: "\<And>i. i < length cs \<Longrightarrow>
              parseClip glTransitions (rnd (Suc k + i)) d n (cs ! i) (Suc k + i) = Inr (rest ! i)"
    by simp_all
  show ?case
  proof (intro conjI allI impI)
    show "length outs = length (c # cs)" using outs len by simp
  next
    fix i assume "i < length (c # cs)"
    then show "parseClip glTransitions (rnd (k + i)) d n ((c # cs) ! i) (k + i) = Inr (outs ! i)"
      using c nth[of "i - 1"] outs by (cases i) simp_all
  qed
qed

lemma clampTransitions_nth:
  "i < length cs \<Longrightarrow>
     duration (transition (clampTransitions cs ! i)) = safeTransitionDuration cs i
     \<and> clip_duration (clampTransitions cs ! i) = clip_duration (cs ! i)
     \<and> layers (clampTransitions cs ! i) = layers (cs ! i)"
  by (simp add: clampTransitions_def)

lemma length_clampTransitions: "length (clampTransitions cs) = length cs"
  by (simp add: clampTransitions_def)

text \<open>
  C6. When \<open>parseConfig\<close> succeeds it returns one clip per configured clip; the
  transition duration of every clip but the last is the minimum of the configured
  duration, half the clip's duration and half the next clip's duration, hence at most
  half of the shorter of the two; the transition duration of the last clip is 0.
\<close>

theorem parseConfig_transition_durations:
  assumes "parseConfig glTransitions random defaultDuration clipsIn = Inr clipsOut"
  shows "length clipsOut = length clipsIn
       \<and> (\<forall>i. i + 1 < length clipsIn \<longrightarrow>
            duration (transition (clipsOut ! i))
              = min (configuredTransitionDuration (clipsIn ! i))
                    (min (clip_duration (clipsOut ! i) / 2) (clip_duration (clipsOut ! (i + 1)) / 2))
            \<and> duration (transition (clipsOut ! i))
              \<le> min (clip_duration (clipsOut ! i)) (clip_duration (clipsOut ! (i + 1))) / 2)
       \<and> (clipsIn \<noteq> [] \<longrightarrow> duration (transition (last clipsOut)) = 0)"
proof -
  from assms obtain parsed where
    p: "parseClips glTransitions random defaultDuration (length clipsIn) clipsIn 0 = Inr parsed"
    and out: "clipsOut = clampTransitions parsed"
    unfolding parseConfig_def by (auto split: sum.splits)
  from parseClips_nth[OF p] have len: "length parsed = length clipsIn"
    and nth: "\<And>i. i < length clipsIn \<Longrightarrow>
       parseClip glTransitions (random i) defaultDuration (length clipsIn) (clipsIn ! i) i
         = Inr (parsed ! i)"
    by simp_all
  have l: "length clipsOut = length clipsIn"
    using out len by (simp add: length_clampTransitions)
  have mid: "duration (transition (clipsOut ! i))
              = min (configuredTransitionDuration (clipsIn ! i))
                    (min (clip_duration (clipsOut ! i) / 2) (clip_duration (clipsOut ! (i + 1)) / 2))"
    if i: "i + 1 < length clipsIn" for i
  proof -
    have notlast: "int i \<noteq> int (length clipsIn) - 1" using i by simp
    have cfg: "duration (transition (parsed ! i)) = configuredTransitionDuration (clipsIn ! i)"
      using parseClip_transition_duration[OF nth[of i]] i notlast by simp
    have "duration (transition (clipsOut ! i)) = safeTransitionDuration parsed i"
      and "clip_duration (clipsOut ! i) = clip_duration (parsed ! i)"
      and "clip_duration (clipsOut ! (i + 1)) = clip_duration (parsed ! (i + 1))"
      using i len out clampTransitions_nth[of i parsed] clampTransitions_nth[of "i + 1" parsed]
      by simp_all
    then show ?thesis
      using i len cfg by (simp add: safeTransitionDuration_def min.commute min.left_commute)
  qed
  have bound: "duration (transition (clipsOut ! i))
              \<le> min (clip_duration (clipsOut ! i)) (clip_duration (clipsOut ! (i + 1))) / 2"
    if i: "i + 1 < length clipsIn" for i
    unfolding mid[OF i] by (simp add: min_def)
  have lst: "duration (transition (last clipsOut)) = 0" if ne: "clipsIn \<noteq> []"
  proof -
    have n: "length parsed - 1 < length parsed" using ne len by simp
    have "clipsOut \<noteq> []" using l ne by auto
    then have "last clipsOut = clipsOut ! (length parsed - 1)"
      using l len by (simp add: last_conv_nth)
    moreover have "safeTransitionDuration parsed (length parsed - 1) = 0"
      using n unfolding safeTransitionDuration_def by auto
    ultimately show ?thesis
      using clampTransitions_nth[OF n] out by simp
  qed
  show ?thesis using l mid bound lst by blast
qed

text \<open>
  An instance: clips of 1, 3 and 2 seconds asking for transitions of 2, 1 and 5 seconds get
  transitions of 0.5, 1 and 0 seconds.
\<close>

theorem parseConfig_transition_durations_witness:
  "\<exists>clipsOut. parseConfig [''fade''] (\<lambda>i. ''fade'') None scenarioB_config = Inr clipsOut
      \<and> length clipsOut = 3
      \<and> duration (transition (clipsOut ! 0)) = 0.5
      \<and> duration (transition (clipsOut ! 1)) = 1
      \<and> duration (transition (clipsOut ! 2)) = 0"
proof -
  have "case parseConfig [''fade''] (\<lambda>i. ''fade'') None scenarioB_config of
          Inr clipsOut \<Rightarrow> map clip_duration clipsOut = [1, 3, 2]
        | Inl e \<Rightarrow> False"
    by code_simp
  then obtain clipsOut where
    p: "parseConfig [''fade''] (\<lambda>i. ''fade'') None scenarioB_config = Inr clipsOut"
    and d: "map clip_duration clipsOut = [1, 3, 2]" by (auto split: sum.splits)
  from d have d0: "clip_duration (clipsOut ! 0) = 1" and d1: "clip_duration (clipsOut ! 1) = 3"
    and d2: "clip_duration (clipsOut ! 2) = 2"
    by (auto simp: map_eq_Cons_conv)
  note T = parseConfig_transition_durations[OF p]
  have len: "length clipsOut = 3" and ne: "clipsOut \<noteq> []"
    using T by (auto simp: scenarioB_config_def)
  have t0: "duration (transition (clipsOut ! 0)) = 0.5"
    using T[THEN conjunct2, THEN conjunct1, rule_format, of 0, THEN conjunct1] d0 d1
    by (simp add: scenarioB_config_def configuredTransitionDuration_def)
  have t1: "duration (transition (clipsOut ! 1)) = 1"
    using T[THEN conjunct2, THEN conjunct1, rule_format, of 1, THEN conjunct1] d1 d2
    by (simp add: scenarioB_config_def configuredTransitionDuration_def eval_nat_numeral)
  have t2: "duration (transition (clipsOut ! 2)) = 0"
    using T[THEN conjunct2, THEN conjunct2] len ne
    by (simp add: scenarioB_config_def last_conv_nth)
  show ?thesis using p len t0 t1 t2 by simp
qed

section \<open>The blend window\<close>

lemma floor_min_half:
  "\<lfloor>min (real_of_int m / 2) (real_of_int n)\<rfloor> = min (m div 2) n"
proof -
  have h: "\<lfloor>real_of_int m / 2\<rfloor> = m div 2"
    using floor_divide_of_int_eq [of m 2, where ?'a = real] by simp
  show ?thesis
  proof (cases "real_of_int m / 2 \<le> real_of_int n")
    case True
    then have "\<lfloor>real_of_int m / 2\<rfloor> \<le> \<lfloor>real_of_int n\<rfloor>" by (rule floor_mono)
    then have "m div 2 \<le> n" using h by simp
    then show ?thesis using True h by (simp add: min_absorb1)
  next
    case False
    then have "real_of_int n < real_of_int m / 2" by simp
    then have "real_of_int n \<le> real_of_int m / 2" by simp
    then have "\<lfloor>real_of_int n\<rfloor> \<le> \<lfloor>real_of_int m / 2\<rfloor>" by (rule floor_mono)
    then have "n \<le> m div 2" using h by simp
    then show ?thesis using False by (simp add: min_absorb2)
  qed
qed

text \<open>
  C1 (as the code has it). With a next clip present, the blend window is
  \<open>floor(min(min(fromClipNumFrames, toClipNumFrames) / 2, transitionNumFrames))\<close>: the
  smaller of half the shorter clip (rounded down) and the whole frame count of the
  transition. Only the clips' frame counts are halved.
\<close>

theorem transitionNumFramesSafe_halves_clips_only:
  "transitionNumFramesSafe fromClipNumFrames (Some toClipNumFrames) transitionNumFrames
     = min (min fromClipNumFrames toClipNumFrames div 2) transitionNumFrames"
  by (simp add: transitionNumFramesSafe_def floor_min_half)

text \<open>
  C1 as stated fails: for clips of 20 and 30 frames and a transition of 10 frames the
  code computes a window of 10 frames, while half of the minimum of all three is 5.
\<close>

theorem transitionNumFramesSafe_not_half_of_all_three:
  "transitionNumFramesSafe 20 (Some 30) 10 = 10
   \<and> transitionNumFramesSafe 20 (Some 30) 10 \<noteq> \<lfloor>real_of_int (min (min 20 30) 10) / 2\<rfloor>"
  by (simp add: transitionNumFramesSafe_def)

text \<open>
  C7. Whatever the frame counts of the two clips and of the transition (so for every frame
  rate and all durations), the blend window computed in a tick with a next clip is at
  most half the frame count of the shorter clip, rounded down.
\<close>

theorem transitionNumFramesSafe_le_half_of_clips:
  "transitionNumFramesSafe fromClipNumFrames (Some toClipNumFrames) transitionNumFrames
     \<le> \<lfloor>real_of_int (min fromClipNumFrames toClipNumFrames) / 2\<rfloor>"
  unfolding transitionNumFramesSafe_def
  by (rule floor_mono) simp

section \<open>Scenario A: two clips and a transition\<close>

text \<open>
  C2 (as the code has it). Clips of 2 and 3 seconds at 10 frames per second with a
  transition of 1 second: parsing keeps the transition at 1 second (it is at most half of
  either clip), the blend window is \<open>min (20 div 2) 10 = 10\<close> frames, and the run writes 10
  blended frames and 40 frames in all (20 + 30 - 10), whatever the frames are.
\<close>

theorem scenarioA_writes_10_blended_40_total:
  "frameCounts (scenarioA frame blend) = Some (10, 40)"
  by code_simp

text \<open>C2 as stated fails: the run does not write 5 blended frames and 45 frames in all.\<close>

theorem scenarioA_not_5_blended_45_total:
  "frameCounts (scenarioA scenarioA_frame scenarioA_blend) \<noteq> Some (5, 45)"
  by code_simp

section \<open>Scenario C: a read that returns nothing\<close>


section \<open>The clip renderer never returns nothing\<close>

lemma createFrameSource_readNextFrame_not_empty:
  "createFrameSource_readNextFrame ar accepts impl raster width height srcs time \<noteq> Inr (None, srcs')"
  by (simp add: createFrameSource_readNextFrame_def split: sum.splits prod.splits option.splits)

lemma length_renderFabricCanvas:
  "length (renderFabricCanvas raster canvas) = canvasWidth canvas * canvasHeight canvas * 4"
  by (simp add: renderFabricCanvas_def)

lemma readLayers_no_time:
  "readLayers ar accepts impl width height n None canvas srcs = Inr (None, canvas, srcs)"
  by (induction srcs) (simp_all add: FrameSource_readNextFrame_def)

lemma readLayers_none_drawn:
  "(\<And>fs. fs \<in> set srcs \<Longrightarrow> \<not> shouldDrawLayer ar (fs_layer fs) t) \<Longrightarrow>
     readLayers ar accepts impl width height n (Some t) canvas srcs = Inr (None, canvas, srcs)"
  by (induction srcs) (simp_all add: FrameSource_readNextFrame_def)

text \<open>The loop returns early only when there is a single layer.\<close>

lemma readLayers_early_return:
  "readLayers ar accepts impl width height n time canvas srcs = Inr (Some b, canvas', srcs') \<Longrightarrow> n = 1"
proof (induction srcs arbitrary: canvas canvas' srcs')
  case Nil
  then show ?case by simp
next
  case (Cons fs rest)
  show ?case
  proof (rule ccontr)
    assume n: "n \<noteq> 1"
    from Cons.prems n obtain c1 r where
      "readLayers ar accepts impl width height n time c1 rest = Inr (Some b, canvas', r)"
      by (auto split: sum.splits prod.splits option.splits if_splits)
    from Cons.IH[OF this] n show False by simp
  qed
qed

lemma FrameSource_readNextFrame_canvas_size:
  assumes "keepsCanvasSize impl"
    and "FrameSource_readNextFrame ar impl fs time canvas = Inr (r, canvas', fs')"
  shows "canvasWidth canvas' = canvasWidth canvas \<and> canvasHeight canvas' = canvasHeight canvas"
proof (cases "\<exists>t p ot. time = Some t \<and> shouldDrawLayer ar (fs_layer fs) t
                \<and> offsetProgress ar (fs_layer fs) t = Some p
                \<and> offsetTime ar (fs_layer fs) t = Some ot")
  case False
  then have "FrameSource_readNextFrame ar impl fs time canvas = Inr (None, canvas, fs)"
    by (auto simp: FrameSource_readNextFrame_def split: option.splits)
  then show ?thesis using assms(2) by simp
next
  case True
  then obtain t p ot where t: "time = Some t" and d: "shouldDrawLayer ar (fs_layer fs) t"
    and p: "offsetProgress ar (fs_layer fs) t = Some p"
    and ot: "offsetTime ar (fs_layer fs) t = Some ot" by blast
  from assms(2) t d p ot obtain p' where
    "impl (fs_implementation fs) p canvas ot = Inr (r, canvas', p')"
    by (auto simp: FrameSource_readNextFrame_def split: sum.splits prod.splits)
  then show ?thesis using assms(1) unfolding keepsCanvasSize_def by blast
qed

lemma readLayers_canvas_size:
  assumes "keepsCanvasSize impl"
  shows "readLayers ar accepts impl width height n time canvas srcs = Inr (r, canvas', srcs') \<Longrightarrow>
           canvasWidth canvas' = canvasWidth canvas \<and> canvasHeight canvas' = canvasHeight canvas"
proof (induction srcs arbitrary: canvas r canvas' srcs')
  case Nil
  then show ?case by simp
next
  case (Cons fs rest)
  from Cons.prems obtain r1 c1 fs1 where
    rd: "FrameSource_readNextFrame ar impl fs time canvas = Inr (r1, c1, fs1)"
    by (auto split: sum.splits)
  have s1: "canvasWidth c1 = canvasWidth canvas \<and> canvasHeight c1 = canvasHeight canvas"
    using FrameSource_readNextFrame_canvas_size[OF assms rd] .
  show ?case
  proof (cases r1)
    case None
    from Cons.prems rd None obtain rest' where
      "readLayers ar accepts impl width height n time c1 rest = Inr (r, canvas', rest')"
      by (auto split: sum.splits prod.splits)
    from Cons.IH[OF this] s1 show ?thesis by simp
  next
    case (Some rgba2)
    show ?thesis
    proof (cases "n = 1")
      case True
      then have "canvas' = c1" using Cons.prems rd Some by simp
      then show ?thesis using s1 by simp
    next
      case False
      from Cons.prems rd Some False obtain img rest' where
        "readLayers ar accepts impl width height n time (canvas_add c1 img) rest = Inr (r, canvas', rest')"
        by (auto split: sum.splits prod.splits)
      from Cons.IH[OF this] s1 show ?thesis by (simp add: canvas_add_def)
    qed
  qed
qed

text \<open>
  What the clip renderer returns is the buffer of a sole layer, as the producer gave it,
  or the rendered canvas.
\<close>

lemma createFrameSource_readNextFrame_cases:
  assumes "createFrameSource_readNextFrame ar accepts impl raster width height srcs time = Inr (Some b, srcs')"
  shows "(\<exists>fs canvas' fs'. srcs = [fs] \<and> srcs' = [fs']
            \<and> FrameSource_readNextFrame ar impl fs time (createFabricCanvas width height)
                = Inr (Some b, canvas', fs'))
       \<or> (\<exists>canvas'. readLayers ar accepts impl width height (length srcs) time
                        (createFabricCanvas width height) srcs = Inr (None, canvas', srcs')
                    \<and> b = renderFabricCanvas raster canvas')"
proof -
  from assms obtain r canvas' where
    rd: "readLayers ar accepts impl width height (length srcs) time (createFabricCanvas width height) srcs
           = Inr (r, canvas', srcs')"
    and b: "r = Some b \<or> (r = None \<and> b = renderFabricCanvas raster canvas')"
    unfolding createFrameSource_readNextFrame_def
    by (auto split: sum.splits prod.splits option.splits)
  show ?thesis
  proof (cases r)
    case None
    then show ?thesis using rd b by auto
  next
    case (Some b')
    then have rb: "r = Some b" using b by simp
    from readLayers_early_return[OF rd[unfolded rb]] have "length srcs = 1" .
    then obtain fs where srcs: "srcs = [fs]" by (cases srcs) auto
    from rd rb srcs obtain fs' where
      "FrameSource_readNextFrame ar impl fs time (createFabricCanvas width height)
         = Inr (Some b, canvas', fs')" and "srcs' = [fs']"
      by (auto split: sum.splits prod.splits option.splits)
    then show ?thesis using srcs by blast
  qed
qed

lemma createFrameSource_readNextFrame_size:
  assumes "keepsCanvasSize impl"
    and "createFrameSource_readNextFrame ar accepts impl raster width height srcs time = Inr (Some b, srcs')"
  shows "length b = width * height * 4
       \<or> (\<exists>fs canvas' fs'. srcs = [fs]
            \<and> FrameSource_readNextFrame ar impl fs time (createFabricCanvas width height)
                = Inr (Some b, canvas', fs'))"
proof -
  from createFrameSource_readNextFrame_cases[OF assms(2)]
  consider (sole) fs canvas' fs' where "srcs = [fs]"
      "FrameSource_readNextFrame ar impl fs time (createFabricCanvas width height)
         = Inr (Some b, canvas', fs')"
    | (rendered) canvas' where
      "readLayers ar accepts impl width height (length srcs) time (createFabricCanvas width height) srcs
         = Inr (None, canvas', srcs')" "b = renderFabricCanvas raster canvas'"
    by blast
  then show ?thesis
  proof cases
    case sole
    then show ?thesis by blast
  next
    case rendered
    from readLayers_canvas_size[OF assms(1) rendered(1)]
    have "canvasWidth canvas' = width" "canvasHeight canvas' = height"
      by (simp_all add: createFabricCanvas_def)
    then show ?thesis using rendered(2) by (simp add: length_renderFabricCanvas)
  qed
qed

section \<open>The scheduler on renderers that always return a frame\<close>

text \<open>
  With clip renderers that never return nothing, no iteration of the loop warns.
\<close>

lemma writeFrame_warnings:
  "writeFrame st out b = Continue st' \<Longrightarrow> warnings st' = warnings st"
  by (auto simp: writeFrame_def split: option.splits)

lemma writeFrame_not_Break: "writeFrame st out b \<noteq> Break st'"
  by (simp add: writeFrame_def split: option.splits)

lemma switchToNextClip_warnings:
  "switchToNextClip env st k = Continue st' \<or> switchToNextClip env st k = Break st'
     \<Longrightarrow> warnings st' = warnings st"
  by (auto simp: switchToNextClip_def Let_def split: if_splits option.splits sum.splits)

lemma renderFrame_warnings:
  assumes nonempty: "\<And>s t s'. readNextFrame env s t \<noteq> Inr (None, s')"
    and r: "renderFrame env st blend t1 t2 k a = Continue st' \<or> renderFrame env st blend t1 t2 k a = Break st'"
  shows "warnings st' = warnings st"
proof (cases "frameSource1 st")
  case None
  then show ?thesis using r by (simp add: renderFrame_def)
next
  case (Some source1)
  show ?thesis
  proof (cases "readNextFrame env source1 t1")
    case (Inl e)
    then show ?thesis using r Some by (simp add: renderFrame_def)
  next
    case (Inr res)
    then obtain d1 s1' where res: "readNextFrame env source1 t1 = Inr (Some d1, s1')"
      using nonempty[of source1 t1] by (cases res; cases "fst res") auto
    let ?st1 = "st\<lparr>frameSource1 := Some s1', frameSource1Data := Some d1\<rparr>"
    show ?thesis
    proof (cases "frameSource2 st")
      case None
      then show ?thesis
        using r Some res writeFrame_warnings[of ?st1 "Some d1" False st']
        by (simp add: renderFrame_def writeFrame_not_Break)
    next
      case s2: (Some source2)
      show ?thesis
      proof (cases "k > 0 \<and> a \<ge> 0")
        case False
        then show ?thesis
          using r Some res s2 writeFrame_warnings[of ?st1 "Some d1" False st']
          by (auto simp: renderFrame_def writeFrame_not_Break)
      next
        case True
        show ?thesis
        proof (cases "readNextFrame env source2 t2")
          case (Inl e)
          then show ?thesis using r Some res s2 True by (simp add: renderFrame_def)
        next
          case (Inr res2)
          then obtain d2 s2' where res2: "readNextFrame env source2 t2 = Inr (Some d2, s2')"
            using nonempty[of source2 t2] by (cases res2; cases "fst res2") auto
          show ?thesis
          proof (cases "blend (Some d1) d2 (real_of_int a / real_of_int k)")
            case (Inl e)
            then show ?thesis using r Some res s2 True res2 by (simp add: renderFrame_def)
          next
            case out: (Inr out)
            let ?st2 = "?st1\<lparr>frameSource2 := Some s2',
                               blendedFrames := blendedFrames ?st1 @ [totalFramesWritten ?st1]\<rparr>"
            have "writeFrame ?st2 out True = Continue st'"
              using r Some res s2 True res2 out
              by (simp add: renderFrame_def writeFrame_not_Break)
            from writeFrame_warnings[OF this] show ?thesis by simp
          qed
        qed
      qed
    qed
  qed
qed

lemma tick_warnings:
  assumes nonempty: "\<And>s t s'. readNextFrame env s t \<noteq> Inr (None, s')"
    and r: "tick env st = Continue st' \<or> tick env st = Break st'"
  shows "warnings st' = warnings st"
proof -
  from r have inrange: "transitionFromClipId st < length (clips env)"
    by (auto simp: tick_def split: if_splits)
  from r obtain blend where
    c: "Transition_create (gl env) (glDraw env) (transition (clips env ! transitionFromClipId st)) = Inr blend"
    using inrange by (auto simp: tick_def Let_def split: sum.splits)
  from r inrange c have
    "(\<exists>k. switchToNextClip env st k = Continue st' \<or> switchToNextClip env st k = Break st')
     \<or> (\<exists>t1 t2 k a. renderFrame env st blend t1 t2 k a = Continue st'
                     \<or> renderFrame env st blend t1 t2 k a = Break st')"
    unfolding tick_def Let_def by (simp split: if_splits) blast+
  then show ?thesis
    using switchToNextClip_warnings renderFrame_warnings[OF nonempty] by blast
qed

lemma run_warnings:
  assumes "\<And>s t s'. readNextFrame env s t \<noteq> Inr (None, s')"
    and "run env st = Inr final"
  shows "warnings final = warnings st"
  using assms
proof (induction env st rule: run.induct)
  case (1 env st)
  note nonempty = "1.prems"(1) and res = "1.prems"(2)
  show ?case
  proof (cases "tick env st")
    case (Continue st')
    then have "run env st' = Inr final" using res by (subst (asm) run.simps) simp
    then have "warnings final = warnings st'"
      using "1.IH"[OF Continue nonempty] by simp
    then show ?thesis using tick_warnings[OF nonempty, of st st'] Continue by simp
  next
    case (Break st')
    then have "final = st'" using res by (subst (asm) run.simps) simp
    then show ?thesis using tick_warnings[OF nonempty, of st st'] Break by simp
  next
    case (Thrown e)
    then show ?thesis using res by (subst (asm) run.simps) simp
  qed
qed

lemma sole_layer_without_rgba:
  assumes "FrameSource_readNextFrame ar impl fs time (createFabricCanvas width height)
             = Inr (None, canvas', fs')"
  shows "createFrameSource_readNextFrame ar accepts impl raster width height [fs] time
           = Inr (Some (renderFabricCanvas raster canvas'), [fs'])"
  using assms by (simp add: createFrameSource_readNextFrame_def)

lemma sole_layer_with_rgba:
  assumes "FrameSource_readNextFrame ar impl fs time (createFabricCanvas width height)
             = Inr (Some rgba2, canvas', fs')"
  shows "createFrameSource_readNextFrame ar accepts impl raster width height [fs] time
           = Inr (Some rgba2, [fs'])"
  using assms by (simp add: createFrameSource_readNextFrame_def)

lemma Editly_warnings:
  assumes nonempty: "\<And>s t s'. readNextFrame env s t \<noteq> Inr (None, s')"
    and "Editly env = Inr final"
  shows "warnings final = []"
proof -
  from assms(2) obtain st where "run env st = Inr final" and "warnings st = []"
    unfolding Editly_def by (auto split: list.splits sum.splits)
  then show ?thesis using run_warnings[OF nonempty] by simp
qed

text \<open>
  C10 (as the code has it). The \<open>readNextFrame\<close> of a clip renderer never returns nothing.
  With no layer, or with no layer drawn at the requested time, it returns the rendered
  blank canvas, which has \<open>width * height * 4\<close> bytes; with a sole layer that returns no
  buffer it returns the rendered canvas; with a sole layer that returns a buffer it
  returns that buffer as it is, whatever its length. When the producers leave the size of
  the canvas alone, every result other than the buffer of a sole layer has
  \<open>width * height * 4\<close> bytes. Hence a run of the scheduler on these renderers that ends
  normally has recorded no warning: the branch "No frame data returned, using last
  frame" is not taken.
\<close>

theorem clip_renderer_never_returns_nothing:
  fixes impl :: "('p, 'o) implementation"
  shows "createFrameSource_readNextFrame ar accepts impl raster width height srcs time \<noteq> Inr (None, srcs')
       \<and> createFrameSource_readNextFrame ar accepts impl raster width height [] time
           = Inr (Some (renderFabricCanvas raster (createFabricCanvas width height)), [])
       \<and> length (renderFabricCanvas raster (createFabricCanvas width height :: 'o canvas))
           = width * height * 4
       \<and> ((\<forall>fs \<in> set srcs. \<not> shouldDrawLayer ar (fs_layer fs) t) \<longrightarrow>
            createFrameSource_readNextFrame ar accepts impl raster width height srcs (Some t)
              = Inr (Some (renderFabricCanvas raster (createFabricCanvas width height)), srcs))
       \<and> (FrameSource_readNextFrame ar impl fs time (createFabricCanvas width height)
              = Inr (None, canvas', fs') \<longrightarrow>
            createFrameSource_readNextFrame ar accepts impl raster width height [fs] time
              = Inr (Some (renderFabricCanvas raster canvas'), [fs']))
       \<and> (FrameSource_readNextFrame ar impl fs time (createFabricCanvas width height)
              = Inr (Some rgba2, canvas', fs') \<longrightarrow>
            createFrameSource_readNextFrame ar accepts impl raster width height [fs] time
              = Inr (Some rgba2, [fs']))
       \<and> (keepsCanvasSize impl
            \<and> createFrameSource_readNextFrame ar accepts impl raster width height srcs time
                = Inr (Some b, srcs'') \<longrightarrow>
            length b = width * height * 4
            \<or> (\<exists>sole canvas'' sole'. srcs = [sole]
                 \<and> FrameSource_readNextFrame ar impl sole time (createFabricCanvas width height)
                     = Inr (Some b, canvas'', sole')))
       \<and> (Editly (editlyEnv ar accepts cs framerate width height hasGl draw setup impl raster) = Inr final
            \<longrightarrow> warnings final = []
                \<and> ''No frame data returned, using last frame'' \<notin> set (warnings final))"
proof (intro conjI impI)
  show "createFrameSource_readNextFrame ar accepts impl raster width height srcs time \<noteq> Inr (None, srcs')"
    by (rule createFrameSource_readNextFrame_not_empty)
  show "createFrameSource_readNextFrame ar accepts impl raster width height [] time
           = Inr (Some (renderFabricCanvas raster (createFabricCanvas width height)), [])"
    by (simp add: createFrameSource_readNextFrame_def)
  show "length (renderFabricCanvas raster (createFabricCanvas width height :: 'o canvas))
           = width * height * 4"
    by (simp add: length_renderFabricCanvas createFabricCanvas_def)
  show "createFrameSource_readNextFrame ar accepts impl raster width height srcs (Some t)
              = Inr (Some (renderFabricCanvas raster (createFabricCanvas width height)), srcs)"
    if "\<forall>fs \<in> set srcs. \<not> shouldDrawLayer ar (fs_layer fs) t"
    using that by (simp add: createFrameSource_readNextFrame_def readLayers_none_drawn)
  show "createFrameSource_readNextFrame ar accepts impl raster width height [fs] time
              = Inr (Some (renderFabricCanvas raster canvas'), [fs'])"
    if "FrameSource_readNextFrame ar impl fs time (createFabricCanvas width height)
              = Inr (None, canvas', fs')"
    using that by (rule sole_layer_without_rgba)
  show "createFrameSource_readNextFrame ar accepts impl raster width height [fs] time
              = Inr (Some rgba2, [fs'])"
    if "FrameSource_readNextFrame ar impl fs time (createFabricCanvas width height)
              = Inr (Some rgba2, canvas', fs')"
    using that by (rule sole_layer_with_rgba)
  show "length b = width * height * 4
            \<or> (\<exists>sole canvas'' sole'. srcs = [sole]
                 \<and> FrameSource_readNextFrame ar impl sole time (createFabricCanvas width height)
                     = Inr (Some b, canvas'', sole'))"
    if "keepsCanvasSize impl
            \<and> createFrameSource_readNextFrame ar accepts impl raster width height srcs time
                = Inr (Some b, srcs'')"
    using that createFrameSource_readNextFrame_size[of impl ar accepts raster width height srcs time b srcs'']
    by blast
  have w: "warnings final = []"
    if "Editly (editlyEnv ar accepts cs framerate width height hasGl draw setup impl raster) = Inr final"
    using that
    by (intro Editly_warnings[of "editlyEnv ar accepts cs framerate width height hasGl draw setup impl raster"])
       (simp_all add: editlyEnv_def createFrameSource_readNextFrame_not_empty)
  show "warnings final = []"
    if "Editly (editlyEnv ar accepts cs framerate width height hasGl draw setup impl raster) = Inr final"
    using that by (rule w)
  show "''No frame data returned, using last frame'' \<notin> set (warnings final)"
    if "Editly (editlyEnv ar accepts cs framerate width height hasGl draw setup impl raster) = Inr final"
    using w[OF that] by simp
qed

text \<open>
  An instance: a layer outside its window, a sole layer that draws nothing, a sole layer
  that returns a buffer, two layers that return buffers, and a whole run of two frames.
\<close>

lemma keepsCanvasSize_solidProducer: "keepsCanvasSize solidProducer"
  by (auto simp: keepsCanvasSize_def solidProducer_def)

lemma twoLayerSources_created: "createFrameSource (\<lambda>l. Inr 0) twoLayerClip = Inr twoLayerSources"
  by (simp add: createFrameSource_def twoLayerClip_def twoLayerSources_def)

lemma twoLayerEnv_run:
  "case Editly twoLayerEnv of
     Inr final \<Rightarrow> written final = [replicate 16 0, replicate 16 0]
   | Inl e \<Rightarrow> False"
  by code_simp

lemma twoLayerSources_read:
  "case createFrameSource_readNextFrame exactArithmetic strictImageData solidProducer zeroRaster 2 2
          twoLayerSources (Some 0) of
     Inr (Some b, srcs') \<Rightarrow> True
   | _ \<Rightarrow> False"
  by code_simp

theorem clip_renderer_never_returns_nothing_witness:
  "\<not> shouldDrawLayer exactArithmetic (fs_layer windowLayerSource) 3
   \<and> createFrameSource_readNextFrame exactArithmetic strictImageData recordingProducer zeroRaster 2 2
         [windowLayerSource] (Some 3)
       = Inr (Some (replicate 16 0), [windowLayerSource])
   \<and> createFrameSource_readNextFrame exactArithmetic strictImageData recordingProducer zeroRaster 2 2
         [windowLayerSource] (Some 1)
       = Inr (Some (replicate 16 0), [windowLayerSource\<lparr>fs_implementation := [1 / 2]\<rparr>])
   \<and> createFrameSource_readNextFrame exactArithmetic strictImageData solidProducer zeroRaster 2 2
         [soleLayerSource] (Some 0)
       = Inr (Some (replicate 16 7), [soleLayerSource\<lparr>fs_implementation := 1\<rparr>])
   \<and> keepsCanvasSize solidProducer
   \<and> (\<exists>b srcs'. createFrameSource_readNextFrame exactArithmetic strictImageData solidProducer zeroRaster 2 2
                      twoLayerSources (Some 0) = Inr (Some b, srcs')
                  \<and> length b = 16)
   \<and> (\<exists>final. Editly twoLayerEnv = Inr final \<and> length (written final) = 2
                \<and> warnings final = [])"
proof -
  have out: "\<forall>fs \<in> set [windowLayerSource]. \<not> shouldDrawLayer exactArithmetic (fs_layer fs) 3"
    by (simp add: windowLayerSource_def shouldDrawLayer_def offsetProgress_def offsetTime_def
                  exactArithmetic_def)
  have blank: "renderFabricCanvas zeroRaster (createFabricCanvas 2 2) = replicate 16 0"
    by code_simp
  have none: "FrameSource_readNextFrame exactArithmetic recordingProducer windowLayerSource (Some 1)
                (createFabricCanvas 2 2 :: unit canvas)
              = Inr (None, createFabricCanvas 2 2,
                     windowLayerSource\<lparr>fs_implementation := [1 / 2]\<rparr>)"
    by (simp add: FrameSource_readNextFrame_def windowLayerSource_def shouldDrawLayer_def
                  offsetProgress_def offsetTime_def exactArithmetic_def recordingProducer_def)
  have some: "FrameSource_readNextFrame exactArithmetic solidProducer soleLayerSource (Some 0)
                (createFabricCanvas 2 2)
              = Inr (Some (replicate 16 7), createFabricCanvas 2 2,
                     soleLayerSource\<lparr>fs_implementation := 1\<rparr>)"
    by (simp add: FrameSource_readNextFrame_def soleLayerSource_def shouldDrawLayer_def
                  offsetProgress_def offsetTime_def exactArithmetic_def solidProducer_def)
  obtain b srcs' where two:
    "createFrameSource_readNextFrame exactArithmetic strictImageData solidProducer zeroRaster 2 2
       twoLayerSources (Some 0) = Inr (Some b, srcs')"
    using twoLayerSources_read by (auto split: sum.splits prod.splits option.splits)
  obtain final where run: "Editly twoLayerEnv = Inr final" and wr: "length (written final) = 2"
    using twoLayerEnv_run by (auto split: sum.splits)
  note T1 = clip_renderer_never_returns_nothing
              [of exactArithmetic strictImageData recordingProducer zeroRaster 2 2 "[windowLayerSource]" "Some 3" _ 3]
  note T2 = clip_renderer_never_returns_nothing
              [of exactArithmetic strictImageData recordingProducer zeroRaster 2 2 _ "Some 1" _ _ windowLayerSource
                  "createFabricCanvas 2 2" "windowLayerSource\<lparr>fs_implementation := [1 / 2]\<rparr>"]
  note T3 = clip_renderer_never_returns_nothing
              [of exactArithmetic strictImageData solidProducer zeroRaster 2 2 _ "Some 0" _ _ soleLayerSource
                  "createFabricCanvas 2 2" "soleLayerSource\<lparr>fs_implementation := 1\<rparr>"
                  "replicate 16 7"]
  note T4 = clip_renderer_never_returns_nothing
              [of exactArithmetic strictImageData solidProducer zeroRaster 2 2 twoLayerSources "Some 0" _ _ _ _ _ _
                  b srcs']
  note T5 = clip_renderer_never_returns_nothing
              [of exactArithmetic strictImageData solidProducer zeroRaster 2 2 _ _ _ _ _ _ _ _ _ _
                  "[twoLayerClip]" 2 True noGlDraw "\<lambda>l. Inr 0" final]
  have a: "createFrameSource_readNextFrame exactArithmetic strictImageData recordingProducer zeroRaster 2 2
             [windowLayerSource] (Some 3)
           = Inr (Some (replicate 16 0), [windowLayerSource])"
    using T1 out blank by simp
  have c: "createFrameSource_readNextFrame exactArithmetic strictImageData recordingProducer zeroRaster 2 2
             [windowLayerSource] (Some 1)
           = Inr (Some (replicate 16 0), [windowLayerSource\<lparr>fs_implementation := [1 / 2]\<rparr>])"
    using T2 none blank by simp
  have d: "createFrameSource_readNextFrame exactArithmetic strictImageData solidProducer zeroRaster 2 2
             [soleLayerSource] (Some 0)
           = Inr (Some (replicate 16 7), [soleLayerSource\<lparr>fs_implementation := 1\<rparr>])"
    using T3 some by simp
  have e: "length b = 16"
    using T4 keepsCanvasSize_solidProducer two by (simp add: twoLayerSources_def)
  have f: "warnings final = []"
    using T5 run by (simp add: twoLayerEnv_def)
  have out': "\<not> shouldDrawLayer exactArithmetic (fs_layer windowLayerSource) 3"
    using out by simp
  show ?thesis
    using out' a c d e f two run wr keepsCanvasSize_solidProducer by blast
qed

text \<open>
  C10 as stated fails for the size: for frames of 2 by 2 pixels, a sole layer whose
  producer returns a buffer of 3 bytes makes the clip renderer return these 3 bytes, not
  16.
\<close>

theorem clip_renderer_returns_sole_buffer_unchecked:
  "createFrameSource_readNextFrame exactArithmetic strictImageData shortProducer zeroRaster 2 2
     [soleLayerSource] (Some 0)
   = Inr (Some [1, 2, 3], [soleLayerSource\<lparr>fs_implementation := 1\<rparr>])
   \<and> length [1, 2, 3 :: byte] \<noteq> 2 * 2 * 4"
  by (simp add: createFrameSource_readNextFrame_def FrameSource_readNextFrame_def
                soleLayerSource_def shouldDrawLayer_def offsetProgress_def offsetTime_def
                exactArithmetic_def shortProducer_def)

end
